theory Spec2Isabelle
  imports Complex_Main
begin

unbundle bit_operations_syntax

section \<open>Python values, exceptions and string built-ins\<close>

text \<open>
  A Python \<open>str\<close> is modelled as a \<^typ>\<open>string\<close> whose characters stand for the code
  points U+0000 to U+00FF; code points beyond that range are outside the model.
  Python integers are unbounded and are modelled by \<^typ>\<open>int\<close>.

  Every \<open>raise\<close> of the source, and every exception a built-in raises on the paths
  modelled here, is a value of the type \<open>exn\<close>. A function that can raise returns
  \<open>exn + 'a\<close>, with \<open>Inl\<close> for the exception.
\<close>

datatype exn =
    Exception string          \<comment> \<open>\<open>raise Exception(message)\<close>\<close>
  | ValueError string         \<comment> \<open>\<open>raise ValueError(message)\<close>\<close>
  | InvalidLiteral string     \<comment> \<open>the \<open>ValueError\<close> of \<open>int(s)\<close> or \<open>float(s)\<close> on the text \<open>s\<close>\<close>
  | TypeError
  | IndexError
  | UnboundLocalError string  \<comment> \<open>a local variable read before its first assignment\<close>
  | ZeroDivisionError
  | OverflowError             \<comment> \<open>the quotient of two integers is too large for a \<open>float\<close>\<close>
  | FileNotFoundError
  | OSError                   \<comment> \<open>\<open>Popen\<close> could not start the program\<close>
  | AttributeError
  | SystemExit                \<comment> \<open>\<open>exit()\<close>\<close>

text \<open>The decimal digits \<open>0\<close> to \<open>9\<close>: what \<open>\d\<close> matches and what \<open>int\<close> reads
  among the code points of the model.\<close>

definition is_decimal :: "char \<Rightarrow> bool" where
  "is_decimal c \<longleftrightarrow> 48 \<le> (of_char c :: nat) \<and> (of_char c :: nat) \<le> 57"

definition digit_value :: "char \<Rightarrow> int" where
  "digit_value c = of_char c - 48"

text \<open>\<open>str.isdigit\<close> also accepts the superscript digits U+00B2, U+00B3 and U+00B9,
  which \<open>int\<close> rejects.\<close>

definition isdigit_char :: "char \<Rightarrow> bool" where
  "isdigit_char c \<longleftrightarrow> is_decimal c \<or> (of_char c :: nat) \<in> {178, 179, 185}"

definition isdigit :: "string \<Rightarrow> bool" where
  "isdigit s \<longleftrightarrow> s \<noteq> [] \<and> list_all isdigit_char s"

text \<open>\<open>str.isspace\<close> on one code point: the characters \<open>str.split()\<close> and
  \<open>int\<close> treat as white space.\<close>

definition isspace :: "char \<Rightarrow> bool" where
  "isspace c \<longleftrightarrow> (let n = (of_char c :: nat) in
     (9 \<le> n \<and> n \<le> 13) \<or> (28 \<le> n \<and> n \<le> 32) \<or> n = 133 \<or> n = 160)"

definition startswith :: "string \<Rightarrow> string \<Rightarrow> bool" where
  "startswith s p \<longleftrightarrow> take (length p) s = p"

definition endswith :: "string \<Rightarrow> string \<Rightarrow> bool" where
  "endswith s p \<longleftrightarrow> length p \<le> length s \<and> drop (length s - length p) s = p"

text \<open>The slices \<open>s[:-1]\<close> and \<open>s[:-2]\<close>; both are empty on a string that is too short.\<close>

definition drop_last1 :: "string \<Rightarrow> string" where
  "drop_last1 s = take (length s - 1) s"

definition drop_last2 :: "string \<Rightarrow> string" where
  "drop_last2 s = take (length s - 2) s"

text \<open>\<open>str.upper\<close> and \<open>str.lower\<close> on the ASCII letters. Of the other code points
  of the model Python maps none to ASCII characters but U+00DF, whose upper case is
  \<open>SS\<close>; the literals and patterns that an upper-cased text is compared with below
  contain no \<open>S\<close>, so every such comparison and match comes out as in Python.\<close>

definition upper_char :: "char \<Rightarrow> char" where
  "upper_char c = (let n = (of_char c :: nat) in
     if 97 \<le> n \<and> n \<le> 122 then char_of (n - 32) else c)"

definition lower_char :: "char \<Rightarrow> char" where
  "lower_char c = (let n = (of_char c :: nat) in
     if 65 \<le> n \<and> n \<le> 90 then char_of (n + 32) else c)"

definition upper :: "string \<Rightarrow> string" where
  "upper s = map upper_char s"

definition lower :: "string \<Rightarrow> string" where
  "lower s = map lower_char s"

text \<open>\<open>int(s)\<close> in base 10: white space around the text is stripped, one sign is
  allowed, and the digits may be grouped by single underscores. \<open>None\<close> stands for the
  \<open>ValueError\<close>. The white space \<open>int\<close> strips is that of \<open>str.isspace\<close> without
  the separators U+001C to U+001F, which \<open>int\<close> rejects. (The limit some Python
  versions put on the number of digits is not modelled.)\<close>

fun py_digits :: "int \<Rightarrow> string \<Rightarrow> int option" where
  "py_digits acc [] = Some acc"
| "py_digits acc (c # cs) =
     (if is_decimal c then py_digits (10 * acc + digit_value c) cs
      else if c = CHR ''_'' \<and> cs \<noteq> [] \<and> is_decimal (hd cs) then py_digits acc cs
      else None)"

definition py_unsigned :: "string \<Rightarrow> int option" where
  "py_unsigned s = (case s of [] \<Rightarrow> None
     | c # _ \<Rightarrow> if is_decimal c then py_digits 0 s else None)"

definition int_space :: "char \<Rightarrow> bool" where
  "int_space c \<longleftrightarrow> (let n = (of_char c :: nat) in
     (9 \<le> n \<and> n \<le> 13) \<or> n = 32 \<or> n = 133 \<or> n = 160)"

definition strip :: "string \<Rightarrow> string" where
  "strip s = rev (dropWhile int_space (rev (dropWhile int_space s)))"

definition py_int :: "string \<Rightarrow> int option" where
  "py_int s = (case strip s of [] \<Rightarrow> None
     | c # r \<Rightarrow>
         if c = CHR ''-'' then map_option uminus (py_unsigned r)
         else if c = CHR ''+'' then py_unsigned r
         else py_unsigned (c # r))"

definition int_of_str :: "string \<Rightarrow> exn + int" where
  "int_of_str s = (case py_int s of None \<Rightarrow> Inl (InvalidLiteral s) | Some n \<Rightarrow> Inr n)"

text \<open>\<open>s.split()\<close>: the maximal runs of characters that are not white space. The
  word being read is kept reversed in the first argument.\<close>

fun split_acc :: "string \<Rightarrow> string \<Rightarrow> string list" where
  "split_acc w [] = (if w = [] then [] else [rev w])"
| "split_acc w (c # cs) =
     (if isspace c then (if w = [] then split_acc [] cs else rev w # split_acc [] cs)
      else split_acc (c # w) cs)"

definition str_split :: "string \<Rightarrow> string list" where
  "str_split s = split_acc [] s"

section \<open>Unit conversion: \<open>size_string_to_int\<close>\<close>

text \<open>
  Both files define \<open>size_string_to_int\<close> with the same branches; \<open>run_utils.py\<close>
  multiplies by 1024, \<open>aca.py\<close> by 1000. The result \<open>Inr None\<close> is Python's \<open>None\<close>,
  returned when the inner \<open>if\<close>/\<open>elif\<close> has no branch for the suffix.
\<close>

text \<open>\<open>size_string_to_int\<close> of \<open>run_utils.py\<close>.\<close>

definition size_string_to_int :: "string \<Rightarrow> exn + int option" where
  "size_string_to_int sz =
     (if isdigit (drop_last1 sz) \<and> endswith sz ''B'' then
        (case int_of_str (drop_last1 sz) of Inl e \<Rightarrow> Inl e | Inr n \<Rightarrow> Inr (Some n))
      else if isdigit (drop_last2 sz) then
        (if endswith sz ''kB'' then
           (case int_of_str (drop_last2 sz) of Inl e \<Rightarrow> Inl e
            | Inr n \<Rightarrow> Inr (Some (n * 1024)))
         else if endswith sz ''MB'' then
           (case int_of_str (drop_last2 sz) of Inl e \<Rightarrow> Inl e
            | Inr n \<Rightarrow> Inr (Some (n * 1024 * 1024)))
         else Inr None)
      else Inl (ValueError (''Invalid size: '' @ sz)))"

text \<open>\<open>size_string_to_int\<close> of \<open>aca.py\<close>.\<close>

definition aca_size_string_to_int :: "string \<Rightarrow> exn + int option" where
  "aca_size_string_to_int benchmark_size =
     (if isdigit (drop_last1 benchmark_size) \<and> endswith benchmark_size ''B'' then
        (case int_of_str (drop_last1 benchmark_size) of Inl e \<Rightarrow> Inl e
         | Inr n \<Rightarrow> Inr (Some n))
      else if isdigit (drop_last2 benchmark_size) then
        (if endswith benchmark_size ''kB'' then
           (case int_of_str (drop_last2 benchmark_size) of Inl e \<Rightarrow> Inl e
            | Inr n \<Rightarrow> Inr (Some (n * 1000)))
         else if endswith benchmark_size ''MB'' then
           (case int_of_str (drop_last2 benchmark_size) of Inl e \<Rightarrow> Inl e
            | Inr n \<Rightarrow> Inr (Some (n * 1000 * 1000)))
         else Inr None)
      else Inl (ValueError (''Invalid benchmark_size: '' @ benchmark_size)))"

text \<open>The number a non-empty text of decimal digits denotes.\<close>

definition decimal_value :: "string \<Rightarrow> int" where
  "decimal_value ds = foldl (\<lambda>a c. 10 * a + digit_value c) 0 ds"

definition decimal_text :: "string \<Rightarrow> bool" where
  "decimal_text ds \<longleftrightarrow> ds \<noteq> [] \<and> list_all is_decimal ds"

section \<open>The size patterns\<close>

text \<open>
  \<open>re.match\<close> of a pattern \<open>^\d+(u|v)?B$\<close>, where \<open>units\<close> lists the letters of the
  group. The digits are the longest run of decimal digits at the front; since no digit is a
  unit letter or \<open>B\<close>, no other split of the text can match. Python's \<open>$\<close> matches at
  the end of the text and also just before a newline that ends the text.
\<close>

definition size_pattern_body :: "string \<Rightarrow> string \<Rightarrow> bool" where
  "size_pattern_body units s \<longleftrightarrow>
     (let ds = takeWhile is_decimal s; r = dropWhile is_decimal s
      in ds \<noteq> [] \<and> (r = ''B'' \<or> list_ex (\<lambda>u. r = [u, CHR ''B'']) units))"

definition re_match_size :: "string \<Rightarrow> string \<Rightarrow> bool" where
  "re_match_size units s \<longleftrightarrow>
     size_pattern_body units s \<or>
     (s \<noteq> [] \<and> last s = CHR 0x0A \<and> size_pattern_body units (butlast s))"

text \<open>\<open>cache_size_pattern\<close> of \<open>aca.py\<close>, \<open>^\d+(K|M)?B$\<close>, and \<open>size_pattern\<close> of
  \<open>run_utils.py\<close>, \<open>^\d+(k|M)?B$\<close>.\<close>

definition match_cache_size_pattern :: "string \<Rightarrow> bool" where
  "match_cache_size_pattern s = re_match_size ''KM'' s"

definition match_size_pattern :: "string \<Rightarrow> bool" where
  "match_size_pattern s = re_match_size ''kM'' s"

text \<open>
  The pattern as claim C7 words it, matched against the whole text: one or more digits,
  then an optional \<open>k\<close>, \<open>K\<close> or \<open>M\<close>, then \<open>B\<close>.
\<close>

definition spec_size_pattern :: "string \<Rightarrow> bool" where
  "spec_size_pattern s = size_pattern_body ''kKM'' s"

section \<open>The simulator, the statistics file and the report\<close>

text \<open>
  The simulator is an external program. Its behaviour is the parameter \<open>sim\<close> of the
  model: for the \<open>n\<close>-th invocation of a run and its command line, \<open>sim n command\<close>
  tells how the process ends and what the statistics file holds afterwards (\<open>None\<close>: the
  file does not exist). The statistics file is the list of strings that successive calls
  of \<open>readline()\<close> return.
\<close>

datatype proc_outcome =
    Exited int          \<comment> \<open>the process ended with this return code\<close>
  | KeyboardInterrupt   \<comment> \<open>the user interrupted \<open>process.wait()\<close>\<close>
  | SpawnFailed         \<comment> \<open>\<open>Popen\<close> could not start the program\<close>

record proc_result =
  outcome :: proc_outcome
  stats_after :: "string list option"

type_synonym simulator = "nat \<Rightarrow> string list \<Rightarrow> proc_result"

text \<open>One row of a report: the text of the architecture, benchmark and variable
  columns, and the statistic. A statistic is a Python \<open>float\<close>; it is kept here as the exact
  rational it is computed from, and its rounding and printing are not modelled.\<close>

record row =
  architecture_field :: string
  benchmark_field :: string
  variable_fields :: "string list"
  statistic_field :: "rat option"

text \<open>The state of a run: the command lines passed to \<open>Popen\<close> so far, the statistics
  file, and the rows written to the reports so far.\<close>

record 'r world =
  trace :: "string list list"
  stats :: "string list option"
  rows :: "'r list"

text \<open>A step of a run returns the new state and the exception it raised, if any.
  \<open>for_each\<close> is a \<open>for\<close> loop whose body can raise: the first exception ends it.\<close>

fun for_each :: "'a list \<Rightarrow> ('a \<Rightarrow> 's \<Rightarrow> 's \<times> exn option) \<Rightarrow> 's \<Rightarrow> 's \<times> exn option" where
  "for_each [] body w = (w, None)"
| "for_each (x # xs) body w =
     (case body x w of
        (w', None) \<Rightarrow> for_each xs body w'
      | (w', Some e) \<Rightarrow> (w', Some e))"

text \<open>
  \<open>process = subprocess.Popen(command, ...)\<close> followed by \<open>process.wait()\<close> inside the
  \<open>try\<close>. \<open>Popen.wait\<close> returns the return code, whatever it is, and does not raise
  \<open>CalledProcessError\<close>; the handler for that exception in \<open>aca.py\<close> is therefore never
  entered, and \<open>run_utils.py\<close> has none. The handler of \<open>KeyboardInterrupt\<close> calls
  \<open>exit()\<close>.
\<close>

definition popen_wait :: "simulator \<Rightarrow> string list \<Rightarrow> 'r world \<Rightarrow> 'r world \<times> exn option" where
  "popen_wait sim command w =
     (let r = sim (length (trace w)) command;
          w' = w\<lparr>trace := trace w @ [command]\<rparr>
      in case outcome r of
           SpawnFailed \<Rightarrow> (w', Some OSError)
         | KeyboardInterrupt \<Rightarrow> (w'\<lparr>stats := stats_after r\<rparr>, Some SystemExit)
         | Exited returncode \<Rightarrow> (w'\<lparr>stats := stats_after r\<rparr>, None))"

text \<open>\<open>str(n)\<close> for an integer, and for the result of \<open>size_string_to_int\<close>.\<close>

definition digit_char :: "nat \<Rightarrow> char" where
  "digit_char n = ''0123456789'' ! n"

function str_digits :: "int \<Rightarrow> string" where
  "str_digits n = (if n < 10 then [digit_char (nat n)]
     else str_digits (n div 10) @ [digit_char (nat (n mod 10))])"
  by pat_completeness auto
termination
  by (relation "measure nat") auto

declare str_digits.simps [simp del]

definition str_int :: "int \<Rightarrow> string" where
  "str_int n = (if n < 0 then CHR ''-'' # str_digits (- n) else str_digits n)"

definition str_int_option :: "int option \<Rightarrow> string" where
  "str_int_option v = (case v of None \<Rightarrow> ''None'' | Some n \<Rightarrow> str_int n)"

section \<open>Reading the statistics file\<close>

definition readline :: "string list \<Rightarrow> string \<times> string list" where
  "readline f = (case f of [] \<Rightarrow> ([], []) | l # ls \<Rightarrow> (l, ls))"

text \<open>\<open>int(line.split()[1])\<close>.\<close>

definition second_field :: "string \<Rightarrow> exn + string" where
  "second_field line = (case str_split line of _ # f # _ \<Rightarrow> Inr f | _ \<Rightarrow> Inl IndexError)"

definition second_field_int :: "string \<Rightarrow> exn + int" where
  "second_field_int line = (case second_field line of Inl e \<Rightarrow> Inl e | Inr f \<Rightarrow> int_of_str f)"

text \<open>
  \<open>cpi\<close> of \<open>aca.py\<close>. The local variables \<open>instruction_count\<close> and \<open>cycle_count\<close> are
  unbound (\<open>None\<close>) until their first assignment, and reading an unbound local raises
  \<open>UnboundLocalError\<close>. \<open>cpi_after\<close> is the code after the \<open>while\<close> loop; when both
  tests pass, the function ends without a \<open>return\<close> and gives \<open>None\<close>.
\<close>

definition cpi_after :: "int option \<Rightarrow> int option \<Rightarrow> exn + rat option" where
  "cpi_after instruction_count cycle_count =
     (case instruction_count of
        None \<Rightarrow> Inl (UnboundLocalError ''instruction_count'')
      | Some n \<Rightarrow>
          if n = 0 then Inl (Exception ''Could not find instruction count in stats.txt'')
          else (case cycle_count of
                  None \<Rightarrow> Inl (UnboundLocalError ''cycle_count'')
                | Some m \<Rightarrow>
                    if m = 0 then Inl (Exception ''Could not find cycle count in stats.txt'')
                    else Inr None))"

text \<open>
  The division \<open>m / n\<close> of two integers gives the \<open>float\<close> nearest to the quotient and
  raises \<open>OverflowError\<close> when that is beyond the largest \<open>float\<close>,
  \<open>2 ^ 1024 - 2 ^ 971\<close>: that is, when the quotient reaches the midpoint
  \<open>2 ^ 1024 - 2 ^ 970\<close> between the largest \<open>float\<close> and \<open>2 ^ 1024\<close>.
\<close>

definition float_overflow :: "int \<Rightarrow> int \<Rightarrow> bool" where
  "float_overflow m n \<longleftrightarrow> (2 ^ 1024 - 2 ^ 970) * \<bar>n\<bar> \<le> \<bar>m\<bar>"

text \<open>\<open>cycle_count / instruction_count\<close>, with \<open>cycle_count\<close> just assigned. The value
  is kept as the exact quotient; its rounding to a \<open>float\<close> is not modelled.\<close>

definition true_divide :: "int \<Rightarrow> int option \<Rightarrow> exn + rat option" where
  "true_divide cycle_count instruction_count =
     (case instruction_count of
        None \<Rightarrow> Inl (UnboundLocalError ''instruction_count'')
      | Some n \<Rightarrow> if n = 0 then Inl ZeroDivisionError
                  else if float_overflow cycle_count n then Inl OverflowError
                  else Inr (Some (of_int cycle_count / of_int n)))"

fun cpi_while :: "int option \<Rightarrow> int option \<Rightarrow> string list \<Rightarrow> exn + rat option" where
  "cpi_while instruction_count cycle_count [] = cpi_after instruction_count cycle_count"
| "cpi_while instruction_count cycle_count (line # rest) =
     (if line = [] then cpi_after instruction_count cycle_count
      else if startswith line ''simInsts'' then
        (case second_field_int line of
           Inl e \<Rightarrow> Inl e
         | Inr n \<Rightarrow> cpi_while (Some n) cycle_count rest)
      else if startswith line ''system.cpu.numCycles'' then
        (case second_field_int line of
           Inl e \<Rightarrow> Inl e
         | Inr m \<Rightarrow> true_divide m instruction_count)
      else cpi_while instruction_count cycle_count rest)"

definition cpi :: "string list option \<Rightarrow> exn + rat option" where
  "cpi stats_file =
     (case stats_file of
        None \<Rightarrow> Inl FileNotFoundError
      | Some f \<Rightarrow>
          if fst (readline f) = [] then Inl (Exception ''Empty stats.txt'')
          else cpi_while None None f)"

text \<open>
  \<open>get_statistic\<close> of \<open>run_utils.py\<close>. Python's \<open>float(text)\<close> is the parameter
  \<open>float_of_str\<close> (\<open>None\<close>: the text is no number). The tests after the loop compare
  \<open>statistic\<close> with \<open>"cpi"\<close> and \<open>"overall_dcache_miss_rate"\<close>, as the source does.
\<close>

definition get_statistic_after :: "string \<Rightarrow> int option \<Rightarrow> int option \<Rightarrow> exn + rat option" where
  "get_statistic_after statistic instruction_count cycle_count =
     (if statistic = ''cpi'' then cpi_after instruction_count cycle_count
      else if statistic = ''overall_dcache_miss_rate'' then
        Inl (Exception ''Could not find overall dcache miss rate in stats.txt'')
      else Inr None)"

fun get_statistic_while ::
  "(string \<Rightarrow> rat option) \<Rightarrow> string \<Rightarrow> int option \<Rightarrow> int option \<Rightarrow> string list
     \<Rightarrow> exn + rat option" where
  "get_statistic_while float_of_str statistic instruction_count cycle_count [] =
     get_statistic_after statistic instruction_count cycle_count"
| "get_statistic_while float_of_str statistic instruction_count cycle_count (line # rest) =
     (if line = [] then get_statistic_after statistic instruction_count cycle_count
      else if statistic = ''Cycles Per Instruction'' then
        (if startswith line ''simInsts'' then
           (case second_field_int line of
              Inl e \<Rightarrow> Inl e
            | Inr n \<Rightarrow> get_statistic_while float_of_str statistic (Some n) cycle_count rest)
         else if startswith line ''system.cpu.numCycles'' then
           (case second_field_int line of
              Inl e \<Rightarrow> Inl e
            | Inr m \<Rightarrow> true_divide m instruction_count)
         else get_statistic_while float_of_str statistic instruction_count cycle_count rest)
      else if statistic = ''Overall DCache Miss Rate'' then
        (if startswith line ''system.cpu.dcache.overallMissRate::cpu.data'' then
           (case second_field line of
              Inl e \<Rightarrow> Inl e
            | Inr f \<Rightarrow> (case float_of_str f of
                         None \<Rightarrow> Inl (InvalidLiteral f)
                       | Some x \<Rightarrow> Inr (Some x)))
         else get_statistic_while float_of_str statistic instruction_count cycle_count rest)
      else get_statistic_while float_of_str statistic instruction_count cycle_count rest)"

definition get_statistic ::
  "(string \<Rightarrow> rat option) \<Rightarrow> string list option \<Rightarrow> string \<Rightarrow> exn + rat option" where
  "get_statistic float_of_str stats_file statistic =
     (case stats_file of
        None \<Rightarrow> Inl FileNotFoundError
      | Some f \<Rightarrow>
          if fst (readline f) = [] then
            Inl (Exception
              ''Empty stats.txt, try using the --verbose flag to check simulation output'')
          else get_statistic_while float_of_str statistic None None f)"

text \<open>
  The precondition of claim C8 on a statistics file: a line starting with
  \<open>system.cpu.numCycles\<close> occurs, and before the first such line there is a line starting
  with \<open>simInsts\<close> whose second field is a non-zero integer.
\<close>

definition nonzero_instructions_before_cycles :: "string list \<Rightarrow> bool" where
  "nonzero_instructions_before_cycles stats_file \<longleftrightarrow>
     list_ex (\<lambda>b. startswith b ''system.cpu.numCycles'') stats_file \<and>
     list_ex (\<lambda>a. startswith a ''simInsts'' \<and>
                  (case second_field_int a of Inl e \<Rightarrow> False | Inr n \<Rightarrow> n \<noteq> 0))
       (takeWhile (\<lambda>l. \<not> startswith l ''system.cpu.numCycles'') stats_file)"

section \<open>\<open>aca.py\<close>: one benchmark run and the sweep\<close>

text \<open>
  \<open>run_benchmark\<close> of \<open>aca.py\<close>; \<open>benchmark_size\<close> is \<open>args.benchmark_size\<close>. The
  option \<open>args.verbose\<close> only selects where the output of the simulator goes and is left
  out. \<open>select_benchmark\<close> is the first \<open>if\<close> chain of the function, which sets
  \<open>binary\<close> and \<open>arguments\<close> or raises.
\<close>

definition select_benchmark :: "string \<Rightarrow> string \<Rightarrow> exn + string \<times> string list" where
  "select_benchmark benchmark_size benchmark =
     (let susan_path = ''./benchmarks/automotive/susan'';
          telecomm_path = ''./benchmarks/telecomm'';
          input = susan_path @ ''/input_'' @ benchmark_size @ ''.pgm '';
          output = susan_path @ ''/output_'' @ benchmark_size
      in
      if lower benchmark = ''susan'' then
        Inr (susan_path @ ''/susan'',
             [input @ output @ ''.smoothing.pgm -s'',
              input @ output @ ''.edges.pgm -e'',
              input @ output @ ''.corners.pgm -c''])
      else if lower benchmark = ''crc'' then
        Inr (telecomm_path @ ''/CRC32/crc'',
             [telecomm_path @ ''/adpcm/data/'' @ benchmark_size @ ''.pcm''])
      else Inl (Exception (''Invalid benchmark '' @ [CHR 0x27] @ benchmark @ [CHR 0x27])))"

text \<open>The choice of the binary by architecture, written the same way in both files.\<close>

definition select_architecture :: "string \<Rightarrow> string \<Rightarrow> exn + string" where
  "select_architecture architecture binary =
     (if upper architecture = ''ARM'' then Inr (binary @ ''.arm'')
      else if upper architecture \<noteq> ''X86'' then
        Inl (Exception (''Invalid architecture '' @ [CHR 0x27] @ architecture @ [CHR 0x27]))
      else Inr binary)"

definition run_benchmark ::
  "simulator \<Rightarrow> string \<Rightarrow> string \<Rightarrow> string \<Rightarrow> string \<Rightarrow> string \<Rightarrow> 'r world
     \<Rightarrow> 'r world \<times> exn option" where
  "run_benchmark sim benchmark_size architecture benchmark icache_size dcache_size w =
     (case select_benchmark benchmark_size benchmark of
        Inl e \<Rightarrow> (w, Some e)
      | Inr (binary0, arguments) \<Rightarrow>
     (case select_architecture architecture binary0 of
        Inl e \<Rightarrow> (w, Some e)
      | Inr binary \<Rightarrow>
     (if \<not> match_cache_size_pattern (upper icache_size) then
        (w, Some (Exception
           (''Invalid icache benchmark_size '' @ [CHR 0x27] @ icache_size @ [CHR 0x27])))
      else if \<not> match_cache_size_pattern (upper dcache_size) then
        (w, Some (Exception
           (''Invalid dcache benchmark_size '' @ [CHR 0x27] @ dcache_size @ [CHR 0x27])))
      else
        for_each arguments
          (\<lambda>argument. popen_wait sim
             [''./gem5/build/'' @ upper architecture @ ''/gem5.opt'',
              ''./gem5/configs/example/se.py'',
              ''--cmd='' @ binary,
              ''--options='' @ argument,
              ''--cpu-type=TimingSimpleCPU'',
              ''--caches'',
              ''--l1i_size='' @ icache_size,
              ''--l1d_size='' @ dcache_size])
          w)))"

text \<open>The body of the innermost loop of the script: run the benchmark, then build the
  row, whose fields are evaluated from left to right, and write it.\<close>

definition sweep_point ::
  "simulator \<Rightarrow> string \<Rightarrow> string \<Rightarrow> string \<Rightarrow> string \<Rightarrow> string \<Rightarrow> row world
     \<Rightarrow> row world \<times> exn option" where
  "sweep_point sim benchmark_size architecture benchmark icache_size dcache_size w =
     (case run_benchmark sim benchmark_size architecture benchmark icache_size dcache_size w of
        (w1, Some e) \<Rightarrow> (w1, Some e)
      | (w1, None) \<Rightarrow>
     (case aca_size_string_to_int icache_size of
        Inl e \<Rightarrow> (w1, Some e)
      | Inr isize \<Rightarrow>
     (case aca_size_string_to_int dcache_size of
        Inl e \<Rightarrow> (w1, Some e)
      | Inr dsize \<Rightarrow>
     (case cpi (stats w1) of
        Inl e \<Rightarrow> (w1, Some e)
      | Inr c \<Rightarrow>
          (w1\<lparr>rows := rows w1 @
             [\<lparr>architecture_field = upper architecture,
               benchmark_field = lower benchmark,
               variable_fields = [str_int_option isize, str_int_option dsize],
               statistic_field = c\<rparr>]\<rparr>,
           None)))))"

text \<open>The four nested \<open>for\<close> loops of the script.\<close>

definition sweep ::
  "simulator \<Rightarrow> string \<Rightarrow> string list \<Rightarrow> string list \<Rightarrow> string list \<Rightarrow> string list
     \<Rightarrow> row world \<Rightarrow> row world \<times> exn option" where
  "sweep sim benchmark_size architectures benchmarks icache_sizes dcache_sizes w =
     for_each architectures (\<lambda>architecture.
       for_each benchmarks (\<lambda>benchmark.
         for_each icache_sizes (\<lambda>icache_size.
           for_each dcache_sizes (\<lambda>dcache_size.
             sweep_point sim benchmark_size architecture benchmark icache_size dcache_size))))
       w"

section \<open>\<open>run_utils.py\<close>: one simulation and the sweep\<close>

text \<open>The value of a \<open>Variable\<close> is a string (a cache size) or an integer (an
  associativity or a cache-line size).\<close>

datatype pyval = PyStr string | PyInt int

definition str_pyval :: "pyval \<Rightarrow> string" where
  "str_pyval v = (case v of PyStr s \<Rightarrow> s | PyInt n \<Rightarrow> str_int n)"

record variable =
  var_value :: pyval
  var_argument :: string
  var_name :: string
  var_units :: "string option"

text \<open>The fields of \<open>arguments\<close> that the modelled functions read.\<close>

record arguments =
  arg_architectures :: "string list"
  arg_benchmarks :: "string list"
  arg_benchmark_size :: string
  arg_gem5_path :: string

text \<open>
  The check of one variable in the first loop of \<open>run_simulation\<close>. \<open>re.match\<close> on a
  value that is no string raises \<open>TypeError\<close>, and so does \<open>variable_size - 1\<close> when
  \<open>size_string_to_int\<close> returned \<open>None\<close> (for which \<open>variable_size != 0\<close> holds).
\<close>

definition check_variable :: "variable \<Rightarrow> exn option" where
  "check_variable v =
     (if var_units v = Some ''B'' then
        (case var_value v of
           PyInt n \<Rightarrow> Some TypeError
         | PyStr s \<Rightarrow>
             if \<not> match_size_pattern s then
               Some (Exception (''Invalid '' @ var_name v @ '' '' @ [CHR 0x27] @ s @ [CHR 0x27]))
             else
               (case size_string_to_int s of
                  Inl e \<Rightarrow> Some e
                | Inr None \<Rightarrow> Some TypeError
                | Inr (Some variable_size) \<Rightarrow>
                    if \<not> (variable_size \<noteq> 0 \<and> (variable_size AND (variable_size - 1)) = 0)
                    then Some (Exception (var_name v @ '' '' @ [CHR 0x27] @ s @ [CHR 0x27]
                                 @ '' is not a power of 2''))
                    else None))
      else None)"

fun check_variables :: "variable list \<Rightarrow> exn option" where
  "check_variables [] = None"
| "check_variables (v # vs) =
     (case check_variable v of Some e \<Rightarrow> Some e | None \<Rightarrow> check_variables vs)"

definition select_simulation :: "arguments \<Rightarrow> string \<Rightarrow> exn + string \<times> string list" where
  "select_simulation arguments benchmark =
     (let path = ''benchmarks/susan'';
          bsize = arg_benchmark_size arguments
      in
      if lower benchmark = ''dummy'' then Inr (''benchmarks/dummy/dummy'', [[]])
      else if lower benchmark = ''susan'' then
        Inr (path @ ''/susan'',
             map (\<lambda>type. path @ ''/input_'' @ bsize @ ''.pgm '' @ path @ ''/output_'' @ bsize
                           @ ''.'' @ type @ ''.pgm -'' @ [hd type])
               [''smoothing'', ''edges'', ''corners''])
      else if lower benchmark = ''crc'' then
        Inr (''benchmarks/CRC32/crc'', [''benchmarks/adpcm/data/'' @ bsize @ ''.pcm''])
      else Inl (Exception (''Invalid benchmark '' @ [CHR 0x27] @ benchmark @ [CHR 0x27])))"

definition run_simulation ::
  "simulator \<Rightarrow> arguments \<Rightarrow> string \<Rightarrow> string \<Rightarrow> variable list \<Rightarrow> string \<Rightarrow> 'r world
     \<Rightarrow> 'r world \<times> exn option" where
  "run_simulation sim arguments architecture benchmark variables part w =
     (case select_simulation arguments benchmark of
        Inl e \<Rightarrow> (w, Some e)
      | Inr (binary0, options) \<Rightarrow>
     (case select_architecture architecture binary0 of
        Inl e \<Rightarrow> (w, Some e)
      | Inr binary \<Rightarrow>
     (case check_variables variables of
        Some e \<Rightarrow> (w, Some e)
      | None \<Rightarrow>
        for_each options
          (\<lambda>option. popen_wait sim
             ([arg_gem5_path arguments @ ''/build/'' @ upper architecture @ ''/gem5.opt'',
               ''--outdir='' @ arg_gem5_path arguments @ ''/m5out'',
               arg_gem5_path arguments @ ''/configs/example/se.py'',
               ''--cmd='' @ binary,
               ''--options='' @ option,
               ''--cpu-type=TimingSimpleCPU'',
               ''--caches'']
              @ map (\<lambda>v. ''--'' @ var_argument v @ ''='' @ str_pyval (var_value v)) variables
              @ (if part = ''b'' then [''--l1i_size=16kB'', ''--l1d_size=16kB''] else [])))
          w)))"

text \<open>
  A \<open>Part\<close> of \<open>run_utils.py\<close>. Each of its two variables carries the list of the values
  to sweep; \<open>sweep_values\<close> is that list.
\<close>

record sweep_variable =
  sweep_values :: "pyval list"
  sweep_argument :: string
  sweep_name :: string
  sweep_units :: "string option"

record part =
  part_letter :: string
  part_variables :: "sweep_variable \<times> sweep_variable"
  part_statistic :: string

definition variable_of :: "pyval \<Rightarrow> sweep_variable \<Rightarrow> variable" where
  "variable_of v sv =
     \<lparr>var_value = v, var_argument = sweep_argument sv, var_name = sweep_name sv,
      var_units = sweep_units sv\<rparr>"

text \<open>One column of the row: \<open>str(size_string_to_int(variable.value))\<close> for a variable in
  bytes, \<open>str(variable.value)\<close> otherwise. On a value that is no string the
  conversion fails at its first slice \<open>size[:-1]\<close> with a \<open>TypeError\<close>.\<close>

definition variable_field :: "variable \<Rightarrow> exn + string" where
  "variable_field v =
     (if var_units v = Some ''B'' then
        (case var_value v of
           PyInt n \<Rightarrow> Inl TypeError
         | PyStr s \<Rightarrow> (case size_string_to_int s of
                      Inl e \<Rightarrow> Inl e
                    | Inr r \<Rightarrow> Inr (str_int_option r)))
      else Inr (str_pyval (var_value v)))"

text \<open>The body of the innermost loop of \<open>run_simulations\<close>. A row is written to the
  output file of its part, so it is recorded with the letter of the part.\<close>

definition simulations_point ::
  "simulator \<Rightarrow> (string \<Rightarrow> rat option) \<Rightarrow> arguments \<Rightarrow> part \<Rightarrow> string \<Rightarrow> string
     \<Rightarrow> pyval \<Rightarrow> pyval \<Rightarrow> (string \<times> row) world \<Rightarrow> (string \<times> row) world \<times> exn option" where
  "simulations_point sim float_of_str arguments p architecture benchmark
       variable_value_0 variable_value_1 w =
     (let variables = [variable_of variable_value_0 (fst (part_variables p)),
                       variable_of variable_value_1 (snd (part_variables p))]
      in
      case run_simulation sim arguments architecture benchmark variables (part_letter p) w of
        (w1, Some e) \<Rightarrow> (w1, Some e)
      | (w1, None) \<Rightarrow>
     (case variable_field (variables ! 0) of
        Inl e \<Rightarrow> (w1, Some e)
      | Inr f0 \<Rightarrow>
     (case variable_field (variables ! 1) of
        Inl e \<Rightarrow> (w1, Some e)
      | Inr f1 \<Rightarrow>
     (case get_statistic float_of_str (stats w1) (part_statistic p) of
        Inl e \<Rightarrow> (w1, Some e)
      | Inr x \<Rightarrow>
          (w1\<lparr>rows := rows w1 @
             [(part_letter p,
               \<lparr>architecture_field = architecture,
                benchmark_field = benchmark,
                variable_fields = [f0, f1],
                statistic_field = x\<rparr>)]\<rparr>,
           None)))))"

text \<open>
  The architectures of a part. The source tests \<open>part != "a"\<close>, where \<open>part\<close> is the
  \<open>Part\<close> object and not its letter; an object of a class without \<open>__eq__\<close> differs from
  every string, so the test always holds and the first architecture alone is taken.
  \<open>arguments.architectures[0]\<close> raises \<open>IndexError\<close> on an empty list.
\<close>

definition part_differs_from_str :: "part \<Rightarrow> string \<Rightarrow> bool" where
  "part_differs_from_str p s = True"

definition part_architectures :: "arguments \<Rightarrow> part \<Rightarrow> exn + string list" where
  "part_architectures arguments p =
     (if part_differs_from_str p ''a'' then
        (case arg_architectures arguments of [] \<Rightarrow> Inl IndexError | a # _ \<Rightarrow> Inr [a])
      else Inr (arg_architectures arguments))"

text \<open>The nested loops of \<open>run_simulations\<close>.\<close>

definition simulations_loop ::
  "simulator \<Rightarrow> (string \<Rightarrow> rat option) \<Rightarrow> arguments \<Rightarrow> part list
     \<Rightarrow> (string \<times> row) world \<Rightarrow> (string \<times> row) world \<times> exn option" where
  "simulations_loop sim float_of_str arguments parts w =
     for_each parts (\<lambda>p w.
       case part_architectures arguments p of
         Inl e \<Rightarrow> (w, Some e)
       | Inr architectures \<Rightarrow>
           for_each architectures (\<lambda>architecture.
             for_each (arg_benchmarks arguments) (\<lambda>benchmark.
               for_each (sweep_values (fst (part_variables p))) (\<lambda>variable_value_0.
                 for_each (sweep_values (snd (part_variables p))) (\<lambda>variable_value_1.
                   simulations_point sim float_of_str arguments p architecture benchmark
                     variable_value_0 variable_value_1))))
             w)
       w"

text \<open>\<open>run_simulations\<close>: after the loops the source calls \<open>parts.values()\<close> on the
  list \<open>parts\<close>, which raises \<open>AttributeError\<close>.\<close>

definition run_simulations ::
  "simulator \<Rightarrow> (string \<Rightarrow> rat option) \<Rightarrow> arguments \<Rightarrow> part list
     \<Rightarrow> (string \<times> row) world \<Rightarrow> (string \<times> row) world \<times> exn option" where
  "run_simulations sim float_of_str arguments parts w =
     (case simulations_loop sim float_of_str arguments parts w of
        (w', Some e) \<Rightarrow> (w', Some e)
      | (w', None) \<Rightarrow> (w', Some AttributeError))"

section \<open>Reading the reports\<close>

text \<open>
  The columns of a row before the statistic, and the text each sweep writes into a
  variable column when the conversion does not raise (the empty text stands in where it
  does, in which case no row is written).
\<close>

definition row_columns :: "row \<Rightarrow> string \<times> string \<times> string list" where
  "row_columns r = (architecture_field r, benchmark_field r, variable_fields r)"

definition size_column :: "string \<Rightarrow> string" where
  "size_column s = (case aca_size_string_to_int s of Inl e \<Rightarrow> [] | Inr v \<Rightarrow> str_int_option v)"

definition variable_column :: "sweep_variable \<Rightarrow> pyval \<Rightarrow> string" where
  "variable_column sv v = (case variable_field (variable_of v sv) of Inl e \<Rightarrow> [] | Inr t \<Rightarrow> t)"

text \<open>The architectures the loops of a part run over; none when
  \<open>arguments.architectures[0]\<close> raises.\<close>

definition swept_architectures :: "arguments \<Rightarrow> part \<Rightarrow> string list" where
  "swept_architectures arguments p =
     (case part_architectures arguments p of Inl e \<Rightarrow> [] | Inr architectures \<Rightarrow> architectures)"

text \<open>The number of simulator invocations of one point: the benchmark \<open>susan\<close> is run
  in three modes, the other benchmarks once.\<close>

definition invocations :: "string \<Rightarrow> nat" where
  "invocations benchmark = (if lower benchmark = ''susan'' then 3 else 1)"

section \<open>Example inputs\<close>

text \<open>A statistics file in the layout the simulator writes, each line ending in a
  newline, and variants of it used below.\<close>

definition newline :: char where
  "newline = CHR 0x0A"

definition stats_lines :: "string list \<Rightarrow> string list" where
  "stats_lines ls = map (\<lambda>l. l @ [newline]) ls"

definition example_stats :: "string list" where
  "example_stats = stats_lines
     ['''',
      ''---------- Begin Simulation Statistics ----------'',
      ''simSeconds                                   0.000049 # Number of seconds simulated'',
      ''simInsts                                         1000 # Number of instructions simulated'',
      ''simOps                                           1200 # Number of ops simulated'',
      ''system.cpu.numCycles                             2500 # Number of cpu cycles simulated'',
      ''system.cpu.dcache.overallMissRate::cpu.data  0.012500 # miss rate for overall accesses'']"

text \<open>A simulator whose every invocation ends with the return code \<open>returncode\<close> and
  leaves the statistics file \<open>stats_file\<close>; the state before a run; the arguments of
  \<open>run_utils.py\<close> and its two parts with short value lists.\<close>

definition simulator_exits :: "int \<Rightarrow> string list \<Rightarrow> simulator" where
  "simulator_exits returncode stats_file n command =
     \<lparr>outcome = Exited returncode, stats_after = Some stats_file\<rparr>"

definition initial_world :: "'r world" where
  "initial_world = \<lparr>trace = [], stats = None, rows = []\<rparr>"

definition example_arguments :: arguments where
  "example_arguments =
     \<lparr>arg_architectures = [''X86'', ''ARM''], arg_benchmarks = [''crc''],
      arg_benchmark_size = ''small'', arg_gem5_path = ''gem5''\<rparr>"

definition icache_variable :: "string \<Rightarrow> variable" where
  "icache_variable s =
     \<lparr>var_value = PyStr s, var_argument = ''l1i_size'', var_name = ''ICache Size'',
      var_units = Some ''B''\<rparr>"

definition dcache_variable :: "string \<Rightarrow> variable" where
  "dcache_variable s =
     \<lparr>var_value = PyStr s, var_argument = ''l1d_size'', var_name = ''DCache Size'',
      var_units = Some ''B''\<rparr>"

definition example_part_a :: part where
  "example_part_a =
     \<lparr>part_letter = ''a'',
      part_variables =
        (\<lparr>sweep_values = [PyStr ''2kB''], sweep_argument = ''l1i_size'',
          sweep_name = ''ICache Size'', sweep_units = Some ''B''\<rparr>,
         \<lparr>sweep_values = [PyStr ''2kB'', PyStr ''4kB''], sweep_argument = ''l1d_size'',
          sweep_name = ''DCache Size'', sweep_units = Some ''B''\<rparr>),
      part_statistic = ''Cycles Per Instruction''\<rparr>"

definition example_part_b :: part where
  "example_part_b =
     \<lparr>part_letter = ''b'',
      part_variables =
        (\<lparr>sweep_values = [PyInt 2], sweep_argument = ''l1d_assoc'',
          sweep_name = ''DCache Associativity'', sweep_units = None\<rparr>,
         \<lparr>sweep_values = [PyInt 16, PyInt 128], sweep_argument = ''cacheline_size'',
          sweep_name = ''Cacheline Size'', sweep_units = None\<rparr>),
      part_statistic = ''Overall DCache Miss Rate''\<rparr>"

text \<open>A stand-in for \<open>float\<close> on the one number of \<open>example_stats\<close> it is applied
  to.\<close>

definition example_float :: "string \<Rightarrow> rat option" where
  "example_float s = (if s = ''0.012500'' then Some (1 / 80) else None)"

section \<open>Properties of \<open>size_string_to_int\<close>\<close>

lemma drop_last1_snoc: "drop_last1 (ds @ [c]) = ds"
  by (simp add: drop_last1_def)

lemma drop_last2_snoc2: "drop_last2 (ds @ [a, b]) = ds"
  by (simp add: drop_last2_def)

lemma endswith_snoc1: "endswith (ds @ [a]) [c] \<longleftrightarrow> a = c"
  by (simp add: endswith_def)

lemma endswith_snoc2: "endswith (ds @ [a, b]) [c, d] \<longleftrightarrow> a = c \<and> b = d"
  by (simp add: endswith_def)

lemma isdigit_decimal_text: "decimal_text ds \<Longrightarrow> isdigit ds"
  by (auto simp: decimal_text_def isdigit_def isdigit_char_def list_all_iff)

lemma isdigit_snoc: "isdigit (ds @ [c]) \<longleftrightarrow> list_all isdigit_char ds \<and> isdigit_char c"
  by (auto simp: isdigit_def)

lemma py_digits_decimal:
  "list_all is_decimal ds \<Longrightarrow>
     py_digits acc ds = Some (foldl (\<lambda>a c. 10 * a + digit_value c) acc ds)"
  by (induction ds arbitrary: acc) auto

lemma not_int_space_decimal: "is_decimal c \<Longrightarrow> \<not> int_space c"
  by (auto simp: is_decimal_def int_space_def Let_def)

lemma strip_decimal_text:
  assumes "decimal_text ds"
  shows "strip ds = ds"
proof -
  from assms have ne: "ds \<noteq> []"
    by (simp add: decimal_text_def)
  with assms have "\<not> int_space (hd ds)" and "\<not> int_space (last ds)"
    by (auto simp: decimal_text_def list_all_iff intro!: not_int_space_decimal)
  then have "dropWhile int_space ds = ds" and "dropWhile int_space (rev ds) = rev ds"
    by (simp_all add: dropWhile_eq_self_iff hd_rev)
  then show ?thesis
    by (simp add: strip_def)
qed

text \<open>On a text of decimal digits \<open>int\<close> returns the number the digits denote.\<close>

lemma int_of_str_decimal_text:
  "decimal_text ds \<Longrightarrow> int_of_str ds = Inr (decimal_value ds)"
  by (cases ds)
    (auto simp: int_of_str_def py_int_def strip_decimal_text py_unsigned_def decimal_value_def
      py_digits_decimal decimal_text_def is_decimal_def)

lemma not_isdigit_char_units:
  "\<not> isdigit_char CHR ''k''" "\<not> isdigit_char CHR ''M''" "\<not> isdigit_char CHR ''B''"
  by (simp_all add: isdigit_char_def is_decimal_def)

text \<open>The conversion of \<open>run_utils.py\<close> on every well-formed size: the digits for
  \<open>B\<close>, times 1024 for \<open>kB\<close>, times 1024 * 1024 for \<open>MB\<close>.\<close>

lemma size_string_to_int_units:
  assumes "decimal_text ds"
  shows "size_string_to_int (ds @ ''B'') = Inr (Some (decimal_value ds))"
    and "size_string_to_int (ds @ ''kB'') = Inr (Some (decimal_value ds * 1024))"
    and "size_string_to_int (ds @ ''MB'') = Inr (Some (decimal_value ds * 1024 * 1024))"
  using assms isdigit_decimal_text [OF assms] drop_last1_snoc [of "ds @ ''k''" "CHR ''B''"]
    drop_last1_snoc [of "ds @ ''M''" "CHR ''B''"]
  by (simp_all add: size_string_to_int_def drop_last1_snoc drop_last2_snoc2 endswith_snoc1
      endswith_snoc2 isdigit_snoc int_of_str_decimal_text not_isdigit_char_units)

text \<open>The conversion of \<open>aca.py\<close> on the same texts: the factors are 1000 and
  1000 * 1000.\<close>

lemma aca_size_string_to_int_units:
  assumes "decimal_text ds"
  shows "aca_size_string_to_int (ds @ ''B'') = Inr (Some (decimal_value ds))"
    and "aca_size_string_to_int (ds @ ''kB'') = Inr (Some (decimal_value ds * 1000))"
    and "aca_size_string_to_int (ds @ ''MB'') =
           Inr (Some (decimal_value ds * 1000 * 1000))"
  using assms isdigit_decimal_text [OF assms] drop_last1_snoc [of "ds @ ''k''" "CHR ''B''"]
    drop_last1_snoc [of "ds @ ''M''" "CHR ''B''"]
  by (simp_all add: aca_size_string_to_int_def drop_last1_snoc drop_last2_snoc2 endswith_snoc1
      endswith_snoc2 isdigit_snoc int_of_str_decimal_text not_isdigit_char_units)

lemma decimal_16: "decimal_text ''16'' \<and> decimal_value ''16'' = 16"
  by (simp add: decimal_text_def is_decimal_def decimal_value_def digit_value_def)

text \<open>
  Claim C1. For \<open><digits>kB\<close> the conversion is to return the digits times 1024, so that
  \<open>16kB\<close> gives 16384. \<open>size_string_to_int\<close> of \<open>run_utils.py\<close> does (and does so for
  every text of digits, by \<open>size_string_to_int_units\<close>); \<open>size_string_to_int\<close> of
  \<open>aca.py\<close> multiplies by 1000 and returns 16000 for \<open>16kB\<close>, and 16000000 instead of
  16777216 for \<open>16MB\<close>.
\<close>

theorem aca_size_string_to_int_16kB:
  "aca_size_string_to_int ''16kB'' = Inr (Some 16000) \<and>
   aca_size_string_to_int ''16MB'' = Inr (Some 16000000) \<and>
   size_string_to_int ''16kB'' = Inr (Some 16384) \<and>
   size_string_to_int ''16MB'' = Inr (Some 16777216)"
  using aca_size_string_to_int_units [of "''16''"] size_string_to_int_units [of "''16''"]
    decimal_16
  by simp

text \<open>
  Claim C9, as stated, fails. The text \<open>1\<close>, superscript two, \<open>B\<close> is malformed (no
  pattern matches it), its part before the last two characters is all digits and its last
  two characters are neither \<open>kB\<close> nor \<open>MB\<close>; but \<open>str.isdigit\<close> accepts the
  superscript, so the first branch of \<open>size_string_to_int\<close> is taken and \<open>int\<close>
  raises \<open>ValueError\<close> on the text before the \<open>B\<close>: the function does not return
  \<open>None\<close>.
\<close>

theorem size_string_to_int_None_counterexample:
  "isdigit (drop_last2 [CHR ''1'', CHR 0xB2, CHR ''B'']) \<and>
   \<not> endswith [CHR ''1'', CHR 0xB2, CHR ''B''] ''kB'' \<and>
   \<not> endswith [CHR ''1'', CHR 0xB2, CHR ''B''] ''MB'' \<and>
   \<not> match_size_pattern [CHR ''1'', CHR 0xB2, CHR ''B''] \<and>
   \<not> match_cache_size_pattern (upper [CHR ''1'', CHR 0xB2, CHR ''B'']) \<and>
   size_string_to_int [CHR ''1'', CHR 0xB2, CHR ''B''] =
     Inl (InvalidLiteral [CHR ''1'', CHR 0xB2]) \<and>
   aca_size_string_to_int [CHR ''1'', CHR 0xB2, CHR ''B''] =
     Inl (InvalidLiteral [CHR ''1'', CHR 0xB2])"
  by code_simp

text \<open>
  Claim C9, amended. A text whose part before the last two characters is all digits
  (\<open>isdigit\<close>), whose last two characters are neither \<open>kB\<close> nor \<open>MB\<close>, and which is
  not of the one-letter form either (its part before the last character is not all
  digits, or it does not end in \<open>B\<close>) is malformed; yet \<open>size_string_to_int\<close>, in
  both files, returns \<open>None\<close> for it and does not reach its \<open>raise ValueError\<close>.
\<close>

theorem size_string_to_int_None:
  assumes "isdigit (drop_last2 s)"
    and "\<not> endswith s ''kB''" and "\<not> endswith s ''MB''"
    and "\<not> (isdigit (drop_last1 s) \<and> endswith s ''B'')"
  shows "size_string_to_int s = Inr None \<and> aca_size_string_to_int s = Inr None"
  using assms by (auto simp: size_string_to_int_def aca_size_string_to_int_def)

theorem size_string_to_int_None_witness:
  "isdigit (drop_last2 ''16GB'') \<and> \<not> endswith ''16GB'' ''kB'' \<and> \<not> endswith ''16GB'' ''MB''
   \<and> \<not> (isdigit (drop_last1 ''16GB'') \<and> endswith ''16GB'' ''B'')
   \<and> \<not> match_size_pattern ''16GB'' \<and> \<not> match_cache_size_pattern (upper ''16GB'')
   \<and> size_string_to_int ''16GB'' = Inr None \<and> aca_size_string_to_int ''16GB'' = Inr None"
proof -
  have h: "isdigit (drop_last2 ''16GB'')" "\<not> endswith ''16GB'' ''kB''"
    "\<not> endswith ''16GB'' ''MB''" "\<not> (isdigit (drop_last1 ''16GB'') \<and> endswith ''16GB'' ''B'')"
    by (simp_all add: isdigit_def isdigit_char_def is_decimal_def drop_last1_def drop_last2_def
        endswith_def)
  have m: "\<not> match_size_pattern ''16GB''" "\<not> match_cache_size_pattern (upper ''16GB'')"
    by (simp_all add: match_size_pattern_def match_cache_size_pattern_def re_match_size_def
        size_pattern_body_def is_decimal_def upper_def upper_char_def)
  from h m size_string_to_int_None [OF h] show ?thesis
    by simp
qed

section \<open>Properties of the statistics parsers\<close>

lemma startswith_nonempty: "startswith l (c # p) \<Longrightarrow> l \<noteq> []"
  by (auto simp: startswith_def)

text \<open>No line starts with both labels: their second characters differ.\<close>

lemma labels_disjoint:
  assumes "startswith l ''system.cpu.numCycles''"
  shows "\<not> startswith l ''simInsts''"
proof
  assume s: "startswith l ''simInsts''"
  have e: "take (length ''simInsts'') (take (length ''system.cpu.numCycles'') l) =
      take (length ''simInsts'') l"
    by simp
  from assms have "take (length ''system.cpu.numCycles'') l = ''system.cpu.numCycles''"
    by (simp only: startswith_def)
  with e have "take (length ''simInsts'') ''system.cpu.numCycles'' =
      take (length ''simInsts'') l"
    by (simp only:)
  also from s have "\<dots> = ''simInsts''"
    by (simp only: startswith_def)
  finally show False
    by simp
qed

lemma cpi_after_unbound: "cpi_after ic None \<noteq> Inr v"
  by (simp add: cpi_after_def split: option.splits)

subsection \<open>Lines the loops pass over\<close>

lemma cpi_while_skip:
  assumes "\<forall>l\<in>set mid. l \<noteq> [] \<and> \<not> startswith l ''simInsts''
             \<and> \<not> startswith l ''system.cpu.numCycles''"
  shows "cpi_while ic cc (mid @ rest) = cpi_while ic cc rest"
  using assms by (induction mid) simp_all

lemma get_statistic_while_skip:
  assumes "\<forall>l\<in>set mid. l \<noteq> [] \<and> \<not> startswith l ''simInsts''
             \<and> \<not> startswith l ''system.cpu.numCycles''"
  shows "get_statistic_while f ''Cycles Per Instruction'' ic cc (mid @ rest) =
         get_statistic_while f ''Cycles Per Instruction'' ic cc rest"
  using assms by (induction mid) simp_all

lemma cpi_while_prefix:
  assumes "\<forall>l\<in>set pre. l \<noteq> [] \<and> \<not> startswith l ''system.cpu.numCycles''
             \<and> (startswith l ''simInsts'' \<longrightarrow> (\<exists>k. second_field_int l = Inr k))"
  shows "\<exists>ic'. cpi_while ic cc (pre @ rest) = cpi_while ic' cc rest"
  using assms
proof (induction pre arbitrary: ic)
  case Nil
  then show ?case by auto
next
  case (Cons l pre)
  show ?case
  proof (cases "startswith l ''simInsts''")
    case True
    with Cons.prems obtain k where "second_field_int l = Inr k"
      by auto
    moreover from Cons.IH [of "Some k"] Cons.prems
    obtain ic' where "cpi_while (Some k) cc (pre @ rest) = cpi_while ic' cc rest"
      by auto
    ultimately show ?thesis
      using True Cons.prems by auto
  next
    case False
    from Cons.IH [of ic] Cons.prems
    obtain ic' where "cpi_while ic cc (pre @ rest) = cpi_while ic' cc rest"
      by auto
    then show ?thesis
      using False Cons.prems by auto
  qed
qed

lemma get_statistic_while_prefix:
  assumes "\<forall>l\<in>set pre. l \<noteq> [] \<and> \<not> startswith l ''system.cpu.numCycles''
             \<and> (startswith l ''simInsts'' \<longrightarrow> (\<exists>k. second_field_int l = Inr k))"
  shows "\<exists>ic'. get_statistic_while f ''Cycles Per Instruction'' ic cc (pre @ rest) =
               get_statistic_while f ''Cycles Per Instruction'' ic' cc rest"
  using assms
proof (induction pre arbitrary: ic)
  case Nil
  then show ?case by auto
next
  case (Cons l pre)
  show ?case
  proof (cases "startswith l ''simInsts''")
    case True
    with Cons.prems obtain k where "second_field_int l = Inr k"
      by auto
    moreover from Cons.IH [of "Some k"] Cons.prems
    obtain ic' where "get_statistic_while f ''Cycles Per Instruction'' (Some k) cc (pre @ rest)
        = get_statistic_while f ''Cycles Per Instruction'' ic' cc rest"
      by auto
    ultimately show ?thesis
      using True Cons.prems by auto
  next
    case False
    from Cons.IH [of ic] Cons.prems
    obtain ic' where "get_statistic_while f ''Cycles Per Instruction'' ic cc (pre @ rest)
        = get_statistic_while f ''Cycles Per Instruction'' ic' cc rest"
      by auto
    then show ?thesis
      using False Cons.prems by auto
  qed
qed

text \<open>From the last \<open>simInsts\<close> line before the first \<open>numCycles\<close> line on, the loops
  hold its value and apply the division at the \<open>numCycles\<close> line.\<close>

lemma cpi_while_counts:
  assumes "startswith a ''simInsts''" and "second_field_int a = Inr N"
    and "\<forall>l\<in>set mid. l \<noteq> [] \<and> \<not> startswith l ''simInsts''
           \<and> \<not> startswith l ''system.cpu.numCycles''"
    and "startswith b ''system.cpu.numCycles''" and "second_field_int b = Inr M"
  shows "cpi_while ic cc (a # mid @ b # post) = true_divide M (Some N)"
  using assms startswith_nonempty [OF assms(1)] startswith_nonempty [OF assms(4)]
    labels_disjoint [OF assms(4)]
  by (simp add: cpi_while_skip)

lemma get_statistic_while_counts:
  assumes "startswith a ''simInsts''" and "second_field_int a = Inr N"
    and "\<forall>l\<in>set mid. l \<noteq> [] \<and> \<not> startswith l ''simInsts''
           \<and> \<not> startswith l ''system.cpu.numCycles''"
    and "startswith b ''system.cpu.numCycles''" and "second_field_int b = Inr M"
  shows "get_statistic_while f ''Cycles Per Instruction'' ic cc (a # mid @ b # post) =
         true_divide M (Some N)"
  using assms startswith_nonempty [OF assms(1)] startswith_nonempty [OF assms(4)]
    labels_disjoint [OF assms(4)]
  by (simp add: get_statistic_while_skip)

text \<open>The files of the corrected claim C4 and of claim C8: the lines \<open>pre\<close>, then the
  \<open>simInsts\<close> line \<open>a\<close>, then lines \<open>mid\<close> without label, then the \<open>numCycles\<close> line
  \<open>b\<close>.\<close>

lemma cpi_layout:
  assumes "\<forall>l\<in>set pre. l \<noteq> [] \<and> \<not> startswith l ''system.cpu.numCycles''
             \<and> (startswith l ''simInsts'' \<longrightarrow> (\<exists>k. second_field_int l = Inr k))"
    and "startswith a ''simInsts''" and "second_field_int a = Inr N"
    and "\<forall>l\<in>set mid. l \<noteq> [] \<and> \<not> startswith l ''simInsts''
           \<and> \<not> startswith l ''system.cpu.numCycles''"
    and "startswith b ''system.cpu.numCycles''" and "second_field_int b = Inr M"
  shows "cpi (Some (pre @ a # mid @ b # post)) = true_divide M (Some N)"
    and "get_statistic f (Some (pre @ a # mid @ b # post)) ''Cycles Per Instruction'' =
         true_divide M (Some N)"
proof -
  let ?rest = "a # mid @ b # post"
  have first: "fst (readline (pre @ ?rest)) \<noteq> []"
    using assms(1) startswith_nonempty [OF assms(2)]
    by (cases pre) (auto simp: readline_def)
  obtain ic where "cpi_while None None (pre @ ?rest) = cpi_while ic None ?rest"
    using cpi_while_prefix [OF assms(1)] by blast
  then show "cpi (Some (pre @ ?rest)) = true_divide M (Some N)"
    using first cpi_while_counts [OF assms(2-6)] by (simp add: cpi_def)
  obtain ic where "get_statistic_while f ''Cycles Per Instruction'' None None (pre @ ?rest) =
      get_statistic_while f ''Cycles Per Instruction'' ic None ?rest"
    using get_statistic_while_prefix [OF assms(1)] by blast
  then show "get_statistic f (Some (pre @ ?rest)) ''Cycles Per Instruction'' =
      true_divide M (Some N)"
    using first get_statistic_while_counts [OF assms(2-6)] by (simp add: get_statistic_def)
qed

text \<open>A \<open>numCycles\<close> line with no \<open>simInsts\<close> line before it.\<close>

lemma cpi_no_instructions:
  assumes "\<forall>l\<in>set pre. l \<noteq> [] \<and> \<not> startswith l ''simInsts''
             \<and> \<not> startswith l ''system.cpu.numCycles''"
    and "startswith b ''system.cpu.numCycles''" and "second_field_int b = Inr M"
  shows "cpi (Some (pre @ b # post)) = Inl (UnboundLocalError ''instruction_count'')"
    and "get_statistic f (Some (pre @ b # post)) ''Cycles Per Instruction'' =
         Inl (UnboundLocalError ''instruction_count'')"
proof -
  have first: "fst (readline (pre @ b # post)) \<noteq> []"
    using assms(1) startswith_nonempty [OF assms(2)]
    by (cases pre) (auto simp: readline_def)
  have b: "b \<noteq> []" "\<not> startswith b ''simInsts''"
    using startswith_nonempty [OF assms(2)] labels_disjoint [OF assms(2)] by auto
  show "cpi (Some (pre @ b # post)) = Inl (UnboundLocalError ''instruction_count'')"
    using first b assms(2,3)
    by (simp add: cpi_def cpi_while_skip [OF assms(1)] true_divide_def)
  show "get_statistic f (Some (pre @ b # post)) ''Cycles Per Instruction'' =
      Inl (UnboundLocalError ''instruction_count'')"
    using first b assms(2,3)
    by (simp add: get_statistic_def get_statistic_while_skip [OF assms(1)] true_divide_def)
qed

subsection \<open>When the parsers return a value\<close>

lemma true_divide_value:
  "true_divide m ic = Inr v \<Longrightarrow> \<exists>n. ic = Some n \<and> n \<noteq> 0"
  by (auto simp: true_divide_def split: option.splits if_splits)

lemma cpi_while_value:
  assumes "cpi_while ic None stats_file = Inr v"
  shows "list_ex (\<lambda>b. startswith b ''system.cpu.numCycles'') stats_file \<and>
     ((\<exists>n. ic = Some n \<and> n \<noteq> 0) \<or>
      list_ex (\<lambda>a. startswith a ''simInsts'' \<and>
                   (case second_field_int a of Inl e \<Rightarrow> False | Inr n \<Rightarrow> n \<noteq> 0))
        (takeWhile (\<lambda>l. \<not> startswith l ''system.cpu.numCycles'') stats_file))"
  using assms
proof (induction stats_file arbitrary: ic)
  case Nil
  then show ?case
    by (simp add: cpi_after_unbound)
next
  case (Cons l ls)
  from Cons.prems have ne: "l \<noteq> []"
    by (auto simp: cpi_after_unbound)
  show ?case
  proof (cases "startswith l ''simInsts''")
    case True
    with Cons.prems ne obtain n where n: "second_field_int l = Inr n"
      and rec: "cpi_while (Some n) None ls = Inr v"
      by (auto split: sum.splits)
    from True labels_disjoint have "\<not> startswith l ''system.cpu.numCycles''"
      by blast
    with Cons.IH [OF rec] True n show ?thesis
      by auto
  next
    case False
    show ?thesis
    proof (cases "startswith l ''system.cpu.numCycles''")
      case True
      with Cons.prems ne False obtain m where "true_divide m ic = Inr v"
        by (auto split: sum.splits)
      with True true_divide_value show ?thesis
        by auto
    next
      case nc: False
      with Cons.prems ne False have "cpi_while ic None ls = Inr v"
        by simp
      from Cons.IH [OF this] nc show ?thesis
        by auto
    qed
  qed
qed

lemma get_statistic_while_value:
  assumes "get_statistic_while f ''Cycles Per Instruction'' ic None stats_file = Inr (Some x)"
  shows "list_ex (\<lambda>b. startswith b ''system.cpu.numCycles'') stats_file \<and>
     ((\<exists>n. ic = Some n \<and> n \<noteq> 0) \<or>
      list_ex (\<lambda>a. startswith a ''simInsts'' \<and>
                   (case second_field_int a of Inl e \<Rightarrow> False | Inr n \<Rightarrow> n \<noteq> 0))
        (takeWhile (\<lambda>l. \<not> startswith l ''system.cpu.numCycles'') stats_file))"
  using assms
proof (induction stats_file arbitrary: ic)
  case Nil
  then show ?case
    by (simp add: get_statistic_after_def)
next
  case (Cons l ls)
  from Cons.prems have ne: "l \<noteq> []"
    by (auto simp: get_statistic_after_def)
  show ?case
  proof (cases "startswith l ''simInsts''")
    case True
    with Cons.prems ne obtain n where n: "second_field_int l = Inr n"
      and rec: "get_statistic_while f ''Cycles Per Instruction'' (Some n) None ls = Inr (Some x)"
      by (auto split: sum.splits)
    from True labels_disjoint have "\<not> startswith l ''system.cpu.numCycles''"
      by blast
    with Cons.IH [OF rec] True n show ?thesis
      by auto
  next
    case False
    show ?thesis
    proof (cases "startswith l ''system.cpu.numCycles''")
      case True
      with Cons.prems ne False obtain m where "true_divide m ic = Inr (Some x)"
        by (auto split: sum.splits)
      with True true_divide_value show ?thesis
        by auto
    next
      case nc: False
      with Cons.prems ne False
      have "get_statistic_while f ''Cycles Per Instruction'' ic None ls = Inr (Some x)"
        by simp
      from Cons.IH [OF this] nc show ?thesis
        by auto
    qed
  qed
qed

text \<open>\<open>cpi\<close> of \<open>aca.py\<close> never returns from a file without a \<open>numCycles\<close> line: the
  code after its loop raises, by a test or by reading an unbound variable.\<close>

lemma cpi_raises_without_cycles:
  assumes "\<not> list_ex (\<lambda>b. startswith b ''system.cpu.numCycles'') stats_file"
  shows "\<exists>e. cpi (Some stats_file) = Inl e"
proof (cases "cpi (Some stats_file)")
  case (Inl e)
  then show ?thesis by blast
next
  case (Inr v)
  then have "cpi_while None None stats_file = Inr v"
    by (auto simp: cpi_def split: if_splits)
  from cpi_while_value [OF this] assms show ?thesis
    by simp
qed

text \<open>\<open>get_statistic\<close> of \<open>run_utils.py\<close> returns \<open>None\<close> from a file that is not empty
  and has no line with the label of the statistic.\<close>

lemma get_statistic_while_miss_rate_None:
  assumes "\<forall>l\<in>set stats_file. l \<noteq> []
      \<and> \<not> startswith l ''system.cpu.dcache.overallMissRate::cpu.data''"
  shows "get_statistic_while f ''Overall DCache Miss Rate'' ic cc stats_file = Inr None"
  using assms by (induction stats_file) (simp_all add: get_statistic_after_def)

lemma get_statistic_while_cycles_None:
  assumes "\<forall>l\<in>set stats_file. l \<noteq> [] \<and> \<not> startswith l ''simInsts''
      \<and> \<not> startswith l ''system.cpu.numCycles''"
  shows "get_statistic_while f ''Cycles Per Instruction'' ic cc stats_file = Inr None"
  using assms by (induction stats_file) (simp_all add: get_statistic_after_def)

lemma get_statistic_unlabelled_None:
  assumes "stats_file \<noteq> []"
    and "\<forall>l\<in>set stats_file. l \<noteq> [] \<and> \<not> startswith l ''simInsts''
      \<and> \<not> startswith l ''system.cpu.numCycles''
      \<and> \<not> startswith l ''system.cpu.dcache.overallMissRate::cpu.data''"
  shows "get_statistic f (Some stats_file) ''Overall DCache Miss Rate'' = Inr None"
    and "get_statistic f (Some stats_file) ''Cycles Per Instruction'' = Inr None"
  using assms
  by (cases stats_file;
      simp add: get_statistic_def readline_def get_statistic_while_miss_rate_None
        get_statistic_while_cycles_None)+

subsection \<open>The claims on the statistics parsers\<close>

text \<open>
  Claim C6. On an empty statistics file, whose first \<open>readline()\<close> returns the empty
  string, \<open>cpi\<close> of \<open>aca.py\<close> and \<open>get_statistic\<close> of \<open>run_utils.py\<close> (for every
  statistic) raise their \<open>Exception\<close> for an empty file. No loop of the scripts
  catches it, so the point and the sweep end there (\<open>sweep_point_empty_stats\<close>,
  \<open>simulations_point_empty_stats\<close> and \<open>for_each_raises\<close> below).
\<close>

theorem empty_stats_raises:
  "cpi (Some []) = Inl (Exception ''Empty stats.txt'') \<and>
   get_statistic f (Some []) statistic =
     Inl (Exception ''Empty stats.txt, try using the --verbose flag to check simulation output'')"
  by (simp add: cpi_def get_statistic_def readline_def)

text \<open>
  Claim C3. A statistics file that is not empty and lacks the labelled lines of the
  requested metric is to make the parser raise. \<open>cpi\<close> of \<open>aca.py\<close> raises on every
  such file (\<open>cpi_raises_without_cycles\<close>). \<open>get_statistic\<close> of \<open>run_utils.py\<close> does
  not: the tests after its loop compare the statistic with \<open>"cpi"\<close> and
  \<open>"overall_dcache_miss_rate"\<close>, names the callers never pass, so for the statistics
  \<open>"Cycles Per Instruction"\<close> and \<open>"Overall DCache Miss Rate"\<close> the function ends
  without raising and returns \<open>None\<close>.
\<close>

theorem get_statistic_missing_lines:
  "get_statistic f (Some (stats_lines [''simSeconds 0.000049 # Number of seconds simulated'']))
     ''Overall DCache Miss Rate'' = Inr None \<and>
   get_statistic f (Some (stats_lines [''simSeconds 0.000049 # Number of seconds simulated'']))
     ''Cycles Per Instruction'' = Inr None \<and>
   get_statistic f (Some (stats_lines [''simInsts 1000 # Number of instructions simulated'']))
     ''Cycles Per Instruction'' = Inr None"
proof -
  have "second_field_int (''simInsts 1000 # Number of instructions simulated'' @ [newline])
      = Inr 1000"
    by code_simp
  then show ?thesis
    by (simp add: stats_lines_def get_statistic_def readline_def startswith_def
        get_statistic_after_def)
qed

text \<open>
  Claim C4, as stated, fails: a file can hold a \<open>simInsts\<close> line with the integer \<open>N\<close>
  and later a \<open>numCycles\<close> line with the integer \<open>M\<close> and the parsers still do not
  return \<open>M / N\<close>. With \<open>N = 0\<close> the division raises; with a second \<open>simInsts\<close> line in
  between, the later value divides (here 20 / 5 and not 20 / 10); with a \<open>numCycles\<close>
  line before the \<open>simInsts\<close> line, the parser stops there; and with \<open>M\<close> a one
  followed by 309 zeros and \<open>N = 1\<close> the quotient is too large for a \<open>float\<close> and the
  division raises \<open>OverflowError\<close>.
\<close>

theorem cpi_quotient_counterexample:
  "cpi (Some (stats_lines [''simInsts 0'', ''system.cpu.numCycles 5''])) = Inl ZeroDivisionError \<and>
   get_statistic (\<lambda>s. None) (Some (stats_lines [''simInsts 0'', ''system.cpu.numCycles 5'']))
     ''Cycles Per Instruction'' = Inl ZeroDivisionError \<and>
   cpi (Some (stats_lines [''simInsts 10'', ''simInsts 5'', ''system.cpu.numCycles 20'']))
     = Inr (Some 4) \<and>
   get_statistic (\<lambda>s. None)
     (Some (stats_lines [''simInsts 10'', ''simInsts 5'', ''system.cpu.numCycles 20'']))
     ''Cycles Per Instruction'' = Inr (Some 4) \<and>
   cpi (Some (stats_lines [''system.cpu.numCycles 7'', ''simInsts 10'', ''system.cpu.numCycles 20'']))
     = Inl (UnboundLocalError ''instruction_count'') \<and>
   get_statistic (\<lambda>s. None)
     (Some (stats_lines [''system.cpu.numCycles 7'', ''simInsts 10'', ''system.cpu.numCycles 20'']))
     ''Cycles Per Instruction'' = Inl (UnboundLocalError ''instruction_count'') \<and>
   cpi (Some (stats_lines [''simInsts 1'',
       ''system.cpu.numCycles 1'' @ replicate 309 (CHR ''0'')])) = Inl OverflowError \<and>
   get_statistic (\<lambda>s. None) (Some (stats_lines [''simInsts 1'',
       ''system.cpu.numCycles 1'' @ replicate 309 (CHR ''0'')]))
     ''Cycles Per Instruction'' = Inl OverflowError"
  by code_simp

text \<open>
  Claim C4, amended. Let the first line starting with \<open>system.cpu.numCycles\<close> be \<open>b\<close>,
  with the integer \<open>M\<close> as second field; let the last line before it that starts with
  \<open>simInsts\<close> be \<open>a\<close>, with the integer \<open>N\<close> as second field, \<open>N\<close> not zero; let
  every earlier line starting with \<open>simInsts\<close> have an integer second field; and let
  \<open>M / N\<close> be within the range of a \<open>float\<close>, that is, below \<open>2 ^ 1024 - 2 ^ 970\<close>
  in absolute value. Then both parsers return \<open>M / N\<close>. (The quotient is exact here;
  Python rounds it to a \<open>float\<close>.)
\<close>

theorem cpi_returns_quotient:
  assumes "\<forall>l\<in>set pre. l \<noteq> [] \<and> \<not> startswith l ''system.cpu.numCycles''
             \<and> (startswith l ''simInsts'' \<longrightarrow> (\<exists>k. second_field_int l = Inr k))"
    and "startswith a ''simInsts''" and "second_field_int a = Inr N" and "N \<noteq> 0"
    and "\<forall>l\<in>set mid. l \<noteq> [] \<and> \<not> startswith l ''simInsts''
           \<and> \<not> startswith l ''system.cpu.numCycles''"
    and "startswith b ''system.cpu.numCycles''" and "second_field_int b = Inr M"
    and "\<not> float_overflow M N"
  shows "cpi (Some (pre @ a # mid @ b # post)) = Inr (Some (of_int M / of_int N)) \<and>
         get_statistic f (Some (pre @ a # mid @ b # post)) ''Cycles Per Instruction'' =
           Inr (Some (of_int M / of_int N))"
  using cpi_layout [OF assms(1-3) assms(5-7)] assms(4) assms(8)
  by (simp add: true_divide_def)

theorem cpi_returns_quotient_witness:
  "cpi (Some example_stats) = Inr (Some (5 / 2)) \<and>
   get_statistic (\<lambda>s. None) (Some example_stats) ''Cycles Per Instruction'' = Inr (Some (5 / 2))"
proof -
  let ?pre = "stats_lines ['''', ''---------- Begin Simulation Statistics ----------'',
      ''simSeconds                                   0.000049 # Number of seconds simulated'']"
  let ?a = "''simInsts                                         1000 # Number of instructions simulated''
      @ [newline]"
  let ?mid = "stats_lines
     [''simOps                                           1200 # Number of ops simulated'']"
  let ?b = "''system.cpu.numCycles                             2500 # Number of cpu cycles simulated''
      @ [newline]"
  let ?post = "stats_lines
     [''system.cpu.dcache.overallMissRate::cpu.data  0.012500 # miss rate for overall accesses'']"
  have split: "example_stats = ?pre @ ?a # ?mid @ ?b # ?post"
    by (simp add: example_stats_def stats_lines_def)
  have pre: "\<forall>l\<in>set ?pre. l \<noteq> [] \<and> \<not> startswith l ''system.cpu.numCycles''
      \<and> (startswith l ''simInsts'' \<longrightarrow> (\<exists>k. second_field_int l = Inr k))"
    by (simp add: stats_lines_def startswith_def)
  have a: "startswith ?a ''simInsts''" "second_field_int ?a = Inr 1000" "(1000::int) \<noteq> 0"
    by code_simp+
  have mid: "\<forall>l\<in>set ?mid. l \<noteq> [] \<and> \<not> startswith l ''simInsts''
      \<and> \<not> startswith l ''system.cpu.numCycles''"
    by (simp add: stats_lines_def startswith_def)
  have b: "startswith ?b ''system.cpu.numCycles''" "second_field_int ?b = Inr 2500"
    by code_simp+
  have r: "\<not> float_overflow 2500 1000"
    by (simp add: float_overflow_def)
  show ?thesis
    using cpi_returns_quotient [OF pre a mid b r, of ?post "\<lambda>s. None"]
    by (simp add: split)
qed

text \<open>
  What holds of both parsers. They return a number only from a file in which a
  \<open>simInsts\<close> line with a non-zero integer comes before the first \<open>numCycles\<close> line.
  When the first \<open>numCycles\<close> line (with its integer) has no \<open>simInsts\<close> line before
  it, the return expression reads the unbound \<open>instruction_count\<close>; when the
  \<open>simInsts\<close> line in force carries 0, the division raises \<open>ZeroDivisionError\<close>.
  Neither is one of the labelled \<open>Exception\<close>s of the parsers.
\<close>

lemma cpi_precondition:
  "(cpi (Some stats_file) = Inr v \<longrightarrow> nonzero_instructions_before_cycles stats_file) \<and>
   (get_statistic f (Some stats_file) ''Cycles Per Instruction'' = Inr (Some x) \<longrightarrow>
      nonzero_instructions_before_cycles stats_file) \<and>
   ((\<forall>l\<in>set pre. l \<noteq> [] \<and> \<not> startswith l ''simInsts''
        \<and> \<not> startswith l ''system.cpu.numCycles'') \<and>
    startswith b ''system.cpu.numCycles'' \<and> second_field_int b = Inr M \<longrightarrow>
      cpi (Some (pre @ b # post)) = Inl (UnboundLocalError ''instruction_count'') \<and>
      get_statistic f (Some (pre @ b # post)) ''Cycles Per Instruction'' =
        Inl (UnboundLocalError ''instruction_count'')) \<and>
   ((\<forall>l\<in>set pre'. l \<noteq> [] \<and> \<not> startswith l ''system.cpu.numCycles''
        \<and> (startswith l ''simInsts'' \<longrightarrow> (\<exists>k. second_field_int l = Inr k))) \<and>
    startswith a ''simInsts'' \<and> second_field_int a = Inr 0 \<and>
    (\<forall>l\<in>set mid. l \<noteq> [] \<and> \<not> startswith l ''simInsts''
        \<and> \<not> startswith l ''system.cpu.numCycles'') \<and>
    startswith b' ''system.cpu.numCycles'' \<and> second_field_int b' = Inr M' \<longrightarrow>
      cpi (Some (pre' @ a # mid @ b' # post')) = Inl ZeroDivisionError \<and>
      get_statistic f (Some (pre' @ a # mid @ b' # post')) ''Cycles Per Instruction'' =
        Inl ZeroDivisionError)"
proof (intro conjI impI)
  assume "cpi (Some stats_file) = Inr v"
  then have "cpi_while None None stats_file = Inr v"
    by (auto simp: cpi_def split: if_splits)
  from cpi_while_value [OF this] show "nonzero_instructions_before_cycles stats_file"
    by (simp add: nonzero_instructions_before_cycles_def)
next
  assume "get_statistic f (Some stats_file) ''Cycles Per Instruction'' = Inr (Some x)"
  then have "get_statistic_while f ''Cycles Per Instruction'' None None stats_file
      = Inr (Some x)"
    by (auto simp: get_statistic_def split: if_splits)
  from get_statistic_while_value [OF this]
  show "nonzero_instructions_before_cycles stats_file"
    by (simp add: nonzero_instructions_before_cycles_def)
next
  assume h: "(\<forall>l\<in>set pre. l \<noteq> [] \<and> \<not> startswith l ''simInsts''
        \<and> \<not> startswith l ''system.cpu.numCycles'') \<and>
    startswith b ''system.cpu.numCycles'' \<and> second_field_int b = Inr M"
  then show "cpi (Some (pre @ b # post)) = Inl (UnboundLocalError ''instruction_count'')"
    and "get_statistic f (Some (pre @ b # post)) ''Cycles Per Instruction'' =
        Inl (UnboundLocalError ''instruction_count'')"
    using cpi_no_instructions [of pre b M] by blast+
next
  assume h: "(\<forall>l\<in>set pre'. l \<noteq> [] \<and> \<not> startswith l ''system.cpu.numCycles''
        \<and> (startswith l ''simInsts'' \<longrightarrow> (\<exists>k. second_field_int l = Inr k))) \<and>
    startswith a ''simInsts'' \<and> second_field_int a = Inr 0 \<and>
    (\<forall>l\<in>set mid. l \<noteq> [] \<and> \<not> startswith l ''simInsts''
        \<and> \<not> startswith l ''system.cpu.numCycles'') \<and>
    startswith b' ''system.cpu.numCycles'' \<and> second_field_int b' = Inr M'"
  then have "cpi (Some (pre' @ a # mid @ b' # post')) = true_divide M' (Some 0)"
    and "get_statistic f (Some (pre' @ a # mid @ b' # post')) ''Cycles Per Instruction'' =
        true_divide M' (Some 0)"
    using cpi_layout [of pre' a 0 mid b' M'] by blast+
  then show "cpi (Some (pre' @ a # mid @ b' # post')) = Inl ZeroDivisionError"
    and "get_statistic f (Some (pre' @ a # mid @ b' # post')) ''Cycles Per Instruction'' =
        Inl ZeroDivisionError"
    by (simp_all add: true_divide_def)
qed

lemma cpi_precondition_instance:
  "nonzero_instructions_before_cycles example_stats \<and>
   cpi (Some (stats_lines [''simSeconds 0.000049'', ''system.cpu.numCycles 2500'',
      ''simInsts 1000''])) = Inl (UnboundLocalError ''instruction_count'') \<and>
   get_statistic (\<lambda>s. None) (Some (stats_lines [''simSeconds 0.000049'',
      ''system.cpu.numCycles 2500'', ''simInsts 1000''])) ''Cycles Per Instruction''
     = Inl (UnboundLocalError ''instruction_count'') \<and>
   cpi (Some (stats_lines [''simSeconds 0.000049'', ''simInsts 0'', ''simOps 0'',
      ''system.cpu.numCycles 2500''])) = Inl ZeroDivisionError \<and>
   get_statistic (\<lambda>s. None) (Some (stats_lines [''simSeconds 0.000049'', ''simInsts 0'',
      ''simOps 0'', ''system.cpu.numCycles 2500''])) ''Cycles Per Instruction''
     = Inl ZeroDivisionError"
proof -
  let ?pre = "stats_lines [''simSeconds 0.000049'']"
  let ?a = "''simInsts 0'' @ [newline]"
  let ?mid = "stats_lines [''simOps 0'']"
  let ?b = "''system.cpu.numCycles 2500'' @ [newline]"
  let ?post = "stats_lines [''simInsts 1000'']"
  note t = cpi_precondition [where stats_file = example_stats and v = "Some (5 / 2)"
      and f = "\<lambda>s. None" and x = "5 / 2" and pre = ?pre and b = ?b and M = 2500
      and post = ?post and pre' = ?pre and a = ?a and mid = ?mid and b' = ?b and M' = 2500
      and post' = "[]"]
  have c: "cpi (Some example_stats) = Inr (Some (5 / 2))"
    by code_simp
  have pre: "\<forall>l\<in>set ?pre. l \<noteq> [] \<and> \<not> startswith l ''simInsts''
      \<and> \<not> startswith l ''system.cpu.numCycles''"
    by (simp add: stats_lines_def startswith_def)
  then have pre': "\<forall>l\<in>set ?pre. l \<noteq> [] \<and> \<not> startswith l ''system.cpu.numCycles''
      \<and> (startswith l ''simInsts'' \<longrightarrow> (\<exists>k. second_field_int l = Inr k))"
    by simp
  have a: "startswith ?a ''simInsts''" "second_field_int ?a = Inr 0"
    by code_simp+
  have mid: "\<forall>l\<in>set ?mid. l \<noteq> [] \<and> \<not> startswith l ''simInsts''
      \<and> \<not> startswith l ''system.cpu.numCycles''"
    by (simp add: stats_lines_def startswith_def)
  have b: "startswith ?b ''system.cpu.numCycles''" "second_field_int ?b = Inr 2500"
    by code_simp+
  from t c have r1: "nonzero_instructions_before_cycles example_stats"
    by blast
  from t pre b
  have r2: "cpi (Some (?pre @ ?b # ?post)) = Inl (UnboundLocalError ''instruction_count'') \<and>
      get_statistic (\<lambda>s. None) (Some (?pre @ ?b # ?post)) ''Cycles Per Instruction'' =
        Inl (UnboundLocalError ''instruction_count'')"
    by blast
  from t pre' a mid b
  have r3: "cpi (Some (?pre @ ?a # ?mid @ ?b # [])) = Inl ZeroDivisionError \<and>
      get_statistic (\<lambda>s. None) (Some (?pre @ ?a # ?mid @ ?b # [])) ''Cycles Per Instruction'' =
        Inl ZeroDivisionError"
    by blast
  from r1 r2 r3 show ?thesis
    by (simp add: stats_lines_def)
qed

text \<open>
  Claim C8. The parser is to complete only from a file in which a \<open>simInsts\<close> line
  with a non-zero integer comes before the first \<open>numCycles\<close> line, and to fail at the
  return expression, with the unbound variable or the division by zero, where that
  expression is reached without it. The failures at the return expression are those of
  \<open>cpi_precondition\<close>, in both files, and \<open>cpi\<close> of \<open>aca.py\<close> completes only
  under the precondition. \<open>get_statistic\<close> of \<open>run_utils.py\<close> does not: on a file
  without a \<open>numCycles\<close> line its loop runs to the end, the tests after the loop are
  skipped because they compare the statistic with the stale name \<open>"cpi"\<close> (the defect
  of claim C3), and the function completes with \<open>None\<close>, where \<open>cpi\<close> raises.
\<close>

theorem get_statistic_completes_without_cycles:
  "\<not> nonzero_instructions_before_cycles (stats_lines [''simSeconds 0.000049'', ''simInsts 0'']) \<and>
   get_statistic f (Some (stats_lines [''simSeconds 0.000049'', ''simInsts 0'']))
     ''Cycles Per Instruction'' = Inr None \<and>
   cpi (Some (stats_lines [''simSeconds 0.000049'', ''simInsts 0''])) =
     Inl (Exception ''Could not find instruction count in stats.txt'')"
proof -
  have 1: "\<not> nonzero_instructions_before_cycles
      (stats_lines [''simSeconds 0.000049'', ''simInsts 0''])"
    by code_simp
  have 2: "second_field_int (''simInsts 0'' @ [newline]) = Inr 0"
    by code_simp
  then have 3: "get_statistic f (Some (stats_lines [''simSeconds 0.000049'', ''simInsts 0'']))
      ''Cycles Per Instruction'' = Inr None"
    by (simp add: stats_lines_def get_statistic_def readline_def startswith_def
        get_statistic_after_def)
  have 4: "cpi (Some (stats_lines [''simSeconds 0.000049'', ''simInsts 0''])) =
      Inl (Exception ''Could not find instruction count in stats.txt'')"
    by code_simp
  from 1 3 4 show ?thesis
    by blast
qed

section \<open>Properties of the runs\<close>

subsection \<open>Loops over simulator invocations\<close>

lemma popen_wait_rows: "popen_wait sim command w = (w', r) \<Longrightarrow> rows w' = rows w"
  by (auto simp: popen_wait_def Let_def split: proc_outcome.splits)

lemma popen_wait_trace:
  "popen_wait sim command w = (w', r) \<Longrightarrow> trace w' = trace w @ [command]"
  by (auto simp: popen_wait_def Let_def split: proc_outcome.splits)

text \<open>When every invocation runs to its end, with whatever return code, a loop of
  invocations raises nothing and issues every command.\<close>

lemma for_each_popen_exited:
  assumes "\<forall>n c. \<exists>returncode. outcome (sim n c) = Exited returncode"
  shows "\<exists>w'. for_each xs (\<lambda>x. popen_wait sim (command x)) w = (w', None)
           \<and> trace w' = trace w @ map command xs \<and> rows w' = rows w"
proof (induction xs arbitrary: w)
  case Nil
  show ?case by simp
next
  case (Cons x xs)
  from assms obtain rc where "outcome (sim (length (trace w)) (command x)) = Exited rc"
    by blast
  then obtain w1 where w1: "popen_wait sim (command x) w = (w1, None)"
    by (simp add: popen_wait_def Let_def)
  from Cons.IH [of w1] popen_wait_rows [OF w1] popen_wait_trace [OF w1] w1
  show ?case
    by auto
qed

text \<open>In general a loop of invocations leaves the rows alone; when it raises nothing it
  has issued every command, in order.\<close>

lemma for_each_popen:
  assumes "for_each xs (\<lambda>x. popen_wait sim (command x)) w = (w', r)"
  shows "rows w' = rows w \<and> (r = None \<longrightarrow> trace w' = trace w @ map command xs)
     \<and> length (trace w) \<le> length (trace w')
     \<and> (xs \<noteq> [] \<longrightarrow> length (trace w) < length (trace w'))"
  using assms
proof (induction xs arbitrary: w)
  case Nil
  then show ?case by simp
next
  case (Cons x xs)
  obtain w1 r1 where w1: "popen_wait sim (command x) w = (w1, r1)"
    by (cases "popen_wait sim (command x) w")
  show ?case
  proof (cases r1)
    case None
    with Cons.prems w1 have "for_each xs (\<lambda>x. popen_wait sim (command x)) w1 = (w', r)"
      by simp
    from Cons.IH [OF this] popen_wait_rows [OF w1] popen_wait_trace [OF w1]
    show ?thesis
      by auto
  next
    case (Some e)
    with Cons.prems w1 popen_wait_rows [OF w1] popen_wait_trace [OF w1]
    show ?thesis
      by auto
  qed
qed

subsection \<open>Powers of two\<close>

text \<open>The test \<open>variable_size != 0 and (variable_size & (variable_size - 1)) == 0\<close>
  holds exactly for the powers of two.\<close>

lemma power_of_two_and:
  fixes n :: int
  assumes "0 < n" and "n AND (n - 1) = 0"
  shows "\<exists>k. n = 2 ^ k"
  using assms
proof (induction "nat n" arbitrary: n rule: less_induct)
  case less
  show ?case
  proof (cases "even n")
    case True
    then obtain m where m: "n = 2 * m"
      by (auto elim: evenE)
    with less.prems have mpos: "0 < m"
      by simp
    have "(n - 1) div 2 = m - 1"
      using m by simp
    with less.prems(2) m have "m AND (m - 1) = 0"
      by (subst (asm) and_int_rec) simp
    moreover from m mpos have "nat m < nat n"
      by simp
    ultimately obtain k where "m = 2 ^ k"
      using less.hyps [of m] mpos by blast
    with m have "n = 2 ^ Suc k"
      by simp
    then show ?thesis ..
  next
    case False
    then obtain m where m: "n = 2 * m + 1"
      by (auto elim: oddE)
    with less.prems(2) have "m = 0"
      by (subst (asm) and_int_rec) simp
    with m have "n = 2 ^ 0"
      by simp
    then show ?thesis ..
  qed
qed

lemma power_of_two_test:
  fixes n :: int
  shows "n \<noteq> 0 \<and> n AND (n - 1) = 0 \<longleftrightarrow> (\<exists>k. n = 2 ^ k)"
proof
  assume h: "n \<noteq> 0 \<and> n AND (n - 1) = 0"
  have "\<not> n < 0"
  proof
    assume "n < 0"
    then have "n AND (n - 1) < 0"
      by simp
    with h show False
      by simp
  qed
  with h have "0 < n"
    by simp
  with h show "\<exists>k. n = 2 ^ k"
    by (simp add: power_of_two_and)
next
  assume "\<exists>k. n = 2 ^ k"
  then obtain k where k: "n = 2 ^ k" ..
  have "(2 ^ k :: int) AND (2 ^ k - 1) = 0"
  proof (induction k)
    case 0
    show ?case by simp
  next
    case (Suc k)
    have "((2::int) * 2 ^ k - 1) div 2 = 2 ^ k - 1"
      by simp
    with Suc show ?case
      by (subst and_int_rec) simp
  qed
  with k show "n \<noteq> 0 \<and> n AND (n - 1) = 0"
    by simp
qed

subsection \<open>The checks before the simulator is invoked\<close>

lemma check_variables_None:
  "check_variables vs = None \<longleftrightarrow> (\<forall>v\<in>set vs. check_variable v = None)"
  by (induction vs) (auto split: option.splits)

text \<open>A failed check ends \<open>run_simulation\<close> in the state it started in: nothing has
  been invoked.\<close>

lemma run_simulation_rejects:
  assumes "check_variables variables \<noteq> None"
  shows "\<exists>e. run_simulation sim arguments architecture benchmark variables part w = (w, Some e)"
  using assms
  by (auto simp: run_simulation_def split: sum.splits prod.splits option.splits)

lemma run_simulation_invoked:
  assumes "trace (fst (run_simulation sim arguments architecture benchmark variables part w))
      \<noteq> trace w"
  shows "check_variables variables = None"
proof (rule ccontr)
  assume "check_variables variables \<noteq> None"
  from run_simulation_rejects [OF this] assms show False
    by (metis fst_conv)
qed

lemma run_benchmark_rejects:
  assumes "\<not> match_cache_size_pattern (upper icache_size)
      \<or> \<not> match_cache_size_pattern (upper dcache_size)"
  shows "\<exists>e. run_benchmark sim benchmark_size architecture benchmark icache_size dcache_size w
      = (w, Some e)"
  using assms
  by (auto simp: run_benchmark_def split: sum.splits prod.splits)

text \<open>What a passed check of a variable in bytes means.\<close>

lemma check_variable_passed:
  assumes "check_variable v = None" and "var_units v = Some ''B''"
  shows "\<exists>s k. var_value v = PyStr s \<and> match_size_pattern s
      \<and> size_string_to_int s = Inr (Some (2 ^ k))"
proof -
  from assms obtain s n where s: "var_value v = PyStr s" "match_size_pattern s"
    "size_string_to_int s = Inr (Some n)" and n: "n \<noteq> 0 \<and> n AND (n - 1) = 0"
    by (auto simp: check_variable_def split: pyval.splits if_splits sum.splits option.splits)
  from n obtain k where "n = 2 ^ k"
    using power_of_two_test [of n] by blast
  with s show ?thesis
    by blast
qed

lemma check_variable_not_power_of_two:
  assumes "var_units v = Some ''B''" and "var_value v = PyStr s"
    and "size_string_to_int s = Inr (Some n)" and "\<not> (\<exists>k. n = 2 ^ k)"
  shows "check_variable v \<noteq> None"
proof
  assume "check_variable v = None"
  from check_variable_passed [OF this assms(1)] assms(2,3,4) show False
    by auto
qed

text \<open>For a value that matches the pattern the exception is the one about powers of
  two.\<close>

lemma check_variable_message:
  assumes "var_units v = Some ''B''" and "var_value v = PyStr s" and "match_size_pattern s"
    and "size_string_to_int s = Inr (Some n)" and "\<not> (\<exists>k. n = 2 ^ k)"
  shows "check_variable v = Some (Exception
      (var_name v @ '' '' @ [CHR 0x27] @ s @ [CHR 0x27] @ '' is not a power of 2''))"
  using assms power_of_two_test [of n]
  by (auto simp: check_variable_def)

subsection \<open>Texts the patterns accept\<close>

lemma endswith_last:
  assumes "endswith s (p @ [c])"
  shows "s \<noteq> [] \<and> last s = c"
proof -
  from assms have len: "length (p @ [c]) \<le> length s"
    and d: "drop (length s - length (p @ [c])) s = p @ [c]"
    by (simp_all add: endswith_def)
  from len have ne: "s \<noteq> []"
    by auto
  with len have "last (drop (length s - length (p @ [c])) s) = last s"
    by (intro last_drop) simp
  with d ne show ?thesis
    by simp
qed

text \<open>\<open>size_string_to_int\<close> returns a number only for a text that ends in \<open>B\<close>.\<close>

lemma size_string_to_int_last:
  assumes "size_string_to_int s = Inr (Some n)"
  shows "s \<noteq> [] \<and> last s = CHR ''B''"
proof -
  from assms have "endswith s ''B'' \<or> endswith s ''kB'' \<or> endswith s ''MB''"
    by (auto simp: size_string_to_int_def split: if_splits)
  then show ?thesis
    using endswith_last [of s "[]" "CHR ''B''"] endswith_last [of s "''k''" "CHR ''B''"]
      endswith_last [of s "''M''" "CHR ''B''"]
    by auto
qed

lemma size_pattern_body_mono:
  "size_pattern_body ''kM'' s \<Longrightarrow> size_pattern_body ''kKM'' s"
  by (auto simp: size_pattern_body_def Let_def)

text \<open>A value in bytes that passes the check of \<open>run_simulation\<close> matches the pattern
  of the claim: a text with a newline at its end, which \<open>$\<close> lets through, is stopped by
  \<open>size_string_to_int\<close> or by the arithmetic on its result \<open>None\<close>.\<close>

lemma check_variable_spec_pattern:
  assumes "check_variable v = None" and "var_units v = Some ''B''"
    and "var_value v = PyStr s"
  shows "spec_size_pattern s"
proof -
  from check_variable_passed [OF assms(1,2)] assms(3)
  obtain k where m: "match_size_pattern s" and c: "size_string_to_int s = Inr (Some (2 ^ k))"
    by auto
  from size_string_to_int_last [OF c] have "last s \<noteq> CHR 0x0A"
    by simp
  with m have "size_pattern_body ''kM'' s"
    by (auto simp: match_size_pattern_def re_match_size_def)
  then show ?thesis
    by (simp add: spec_size_pattern_def size_pattern_body_mono)
qed

subsection \<open>The claims on one run\<close>

text \<open>
  Claim C7, as stated, fails for \<open>run_benchmark\<close> of \<open>aca.py\<close>, which matches its
  pattern against the upper-cased text: \<open>16kb\<close>, with a small \<open>b\<close>, is outside the
  pattern of the claim, and so is \<open>16kB\<close> followed by a newline, yet both are accepted
  and the simulator is invoked with them.
\<close>

theorem size_pattern_counterexample:
  "\<not> spec_size_pattern ''16kb'' \<and>
   run_benchmark (simulator_exits 0 example_stats) ''small'' ''X86'' ''crc'' ''16kb'' ''16kB''
       (initial_world :: unit world) =
     (\<lparr>trace = [[''./gem5/build/X86/gem5.opt'', ''./gem5/configs/example/se.py'',
                  ''--cmd=./benchmarks/telecomm/CRC32/crc'',
                  ''--options=./benchmarks/telecomm/adpcm/data/small.pcm'',
                  ''--cpu-type=TimingSimpleCPU'', ''--caches'',
                  ''--l1i_size=16kb'', ''--l1d_size=16kB'']],
       stats = Some example_stats, rows = []\<rparr>, None) \<and>
   \<not> spec_size_pattern (''16kB'' @ [newline]) \<and>
   snd (run_benchmark (simulator_exits 0 example_stats) ''small'' ''X86'' ''crc''
          (''16kB'' @ [newline]) ''16kB'' (initial_world :: unit world)) = None \<and>
   length (trace (fst (run_benchmark (simulator_exits 0 example_stats) ''small'' ''X86'' ''crc''
          (''16kB'' @ [newline]) ''16kB'' (initial_world :: unit world)))) = 1"
  by code_simp

text \<open>
  Claim C7, amended. In \<open>aca.py\<close>, when \<open>re.match\<close> rejects the upper-cased text of the
  instruction or data cache size, \<open>run_benchmark\<close> raises and the state is the one it
  started in: no simulator has been invoked. In \<open>run_utils.py\<close>, when the value of a
  variable in bytes does not match the pattern of the claim, \<open>run_simulation\<close> raises,
  again in the state it started in.
\<close>

theorem invalid_size_raises_before_simulator:
  "(\<not> match_cache_size_pattern (upper icache_size)
      \<or> \<not> match_cache_size_pattern (upper dcache_size) \<longrightarrow>
      (\<exists>e. run_benchmark sim benchmark_size architecture benchmark icache_size dcache_size w
             = (w, Some e))) \<and>
   (v \<in> set variables \<and> var_units v = Some ''B'' \<and> var_value v = PyStr s
      \<and> \<not> spec_size_pattern s \<longrightarrow>
      (\<exists>e. run_simulation sim arguments architecture' benchmark' variables part w'
             = (w', Some e)))"
proof (intro conjI impI)
  assume "\<not> match_cache_size_pattern (upper icache_size)
      \<or> \<not> match_cache_size_pattern (upper dcache_size)"
  then show "\<exists>e. run_benchmark sim benchmark_size architecture benchmark icache_size
      dcache_size w = (w, Some e)"
    by (rule run_benchmark_rejects)
next
  assume h: "v \<in> set variables \<and> var_units v = Some ''B'' \<and> var_value v = PyStr s
      \<and> \<not> spec_size_pattern s"
  then have "check_variable v \<noteq> None"
    using check_variable_spec_pattern [of v s] by blast
  with h have "check_variables variables \<noteq> None"
    by (auto simp: check_variables_None)
  then show "\<exists>e. run_simulation sim arguments architecture' benchmark' variables part w'
      = (w', Some e)"
    by (rule run_simulation_rejects)
qed

theorem invalid_size_raises_before_simulator_witness:
  "(\<exists>e. run_benchmark (simulator_exits 0 example_stats) ''small'' ''X86'' ''crc''
          ''16GB'' ''16kB'' (initial_world :: unit world) = (initial_world, Some e)) \<and>
   (\<exists>e. run_simulation (simulator_exits 0 example_stats) example_arguments ''X86'' ''crc''
          [icache_variable ''16kB'', dcache_variable ''16kb''] ''a''
          (initial_world :: unit world) = (initial_world, Some e))"
proof -
  note t = invalid_size_raises_before_simulator
    [where icache_size = "''16GB''" and dcache_size = "''16kB''"
      and sim = "simulator_exits 0 example_stats" and benchmark_size = "''small''"
      and architecture = "''X86''" and benchmark = "''crc''"
      and w = "initial_world :: unit world"
      and v = "dcache_variable ''16kb''"
      and variables = "[icache_variable ''16kB'', dcache_variable ''16kb'']"
      and s = "''16kb''" and arguments = example_arguments and architecture' = "''X86''"
      and benchmark' = "''crc''" and part = "''a''" and w' = "initial_world :: unit world"]
  have 1: "\<not> match_cache_size_pattern (upper ''16GB'')"
    by code_simp
  have 2: "dcache_variable ''16kb'' \<in> set [icache_variable ''16kB'', dcache_variable ''16kb'']"
    "var_units (dcache_variable ''16kb'') = Some ''B''"
    "var_value (dcache_variable ''16kb'') = PyStr ''16kb''"
    by (simp_all add: dcache_variable_def)
  have 3: "\<not> spec_size_pattern ''16kb''"
    by code_simp
  from t 1 2 3 show ?thesis
    by blast
qed

text \<open>
  Claim C10. In \<open>run_utils.py\<close>, when the value of a variable in bytes converts to a
  number that is no power of two, \<open>run_simulation\<close> raises in the state it started in;
  and whenever \<open>run_simulation\<close> has invoked the simulator, every variable in bytes
  holds a text that converts to a power of two.
\<close>

theorem not_power_of_two_raises:
  "(v \<in> set variables \<and> var_units v = Some ''B'' \<and> var_value v = PyStr s
      \<and> size_string_to_int s = Inr (Some n) \<and> \<not> (\<exists>k. n = 2 ^ k) \<longrightarrow>
      (\<exists>e. run_simulation sim arguments architecture benchmark variables part w
             = (w, Some e))) \<and>
   (trace (fst (run_simulation sim arguments architecture benchmark variables part w))
      \<noteq> trace w \<longrightarrow>
      (\<forall>u\<in>set variables. var_units u = Some ''B'' \<longrightarrow>
         (\<exists>t k. var_value u = PyStr t \<and> size_string_to_int t = Inr (Some (2 ^ k)))))"
proof (intro conjI impI ballI)
  assume h: "v \<in> set variables \<and> var_units v = Some ''B'' \<and> var_value v = PyStr s
      \<and> size_string_to_int s = Inr (Some n) \<and> \<not> (\<exists>k. n = 2 ^ k)"
  then have "check_variable v \<noteq> None"
    using check_variable_not_power_of_two [of v s n] by blast
  with h have "check_variables variables \<noteq> None"
    by (auto simp: check_variables_None)
  then show "\<exists>e. run_simulation sim arguments architecture benchmark variables part w
      = (w, Some e)"
    by (rule run_simulation_rejects)
next
  fix u
  assume "trace (fst (run_simulation sim arguments architecture benchmark variables part w))
      \<noteq> trace w"
    and u: "u \<in> set variables" "var_units u = Some ''B''"
  from run_simulation_invoked [OF this(1)] u(1) have "check_variable u = None"
    by (simp add: check_variables_None)
  from check_variable_passed [OF this u(2)]
  show "\<exists>t k. var_value u = PyStr t \<and> size_string_to_int t = Inr (Some (2 ^ k))"
    by blast
qed

theorem not_power_of_two_raises_witness:
  "match_size_pattern ''3kB'' \<and> size_string_to_int ''3kB'' = Inr (Some 3072) \<and>
   (\<exists>e. run_simulation (simulator_exits 0 example_stats) example_arguments ''X86'' ''crc''
          [icache_variable ''3kB'', dcache_variable ''4kB''] ''a''
          (initial_world :: unit world) = (initial_world, Some e)) \<and>
   (\<exists>t k. var_value (dcache_variable ''4kB'') = PyStr t
          \<and> size_string_to_int t = Inr (Some (2 ^ k)))"
proof -
  have m: "match_size_pattern ''3kB''"
    by code_simp
  have c: "size_string_to_int ''3kB'' = Inr (Some 3072)"
    by code_simp
  have "(3072::int) AND (3072 - 1) \<noteq> 0"
    by simp
  then have np: "\<not> (\<exists>k. (3072::int) = 2 ^ k)"
    using power_of_two_test [of 3072] by blast
  have v: "icache_variable ''3kB'' \<in> set [icache_variable ''3kB'', dcache_variable ''4kB'']"
    "var_units (icache_variable ''3kB'') = Some ''B''"
    "var_value (icache_variable ''3kB'') = PyStr ''3kB''"
    by (simp_all add: icache_variable_def)
  note t1 = not_power_of_two_raises
    [where v = "icache_variable ''3kB''"
      and variables = "[icache_variable ''3kB'', dcache_variable ''4kB'']"
      and s = "''3kB''" and n = 3072 and sim = "simulator_exits 0 example_stats"
      and arguments = example_arguments and architecture = "''X86''" and benchmark = "''crc''"
      and part = "''a''" and w = "initial_world :: unit world"]
  from t1 v c np
  have r1: "\<exists>e. run_simulation (simulator_exits 0 example_stats) example_arguments ''X86''
      ''crc'' [icache_variable ''3kB'', dcache_variable ''4kB''] ''a''
      (initial_world :: unit world) = (initial_world, Some e)"
    by blast
  note t2 = not_power_of_two_raises
    [where variables = "[icache_variable ''2kB'', dcache_variable ''4kB'']"
      and sim = "simulator_exits 0 example_stats"
      and arguments = example_arguments and architecture = "''X86''" and benchmark = "''crc''"
      and part = "''a''" and w = "initial_world :: unit world"]
  have "trace (fst (run_simulation (simulator_exits 0 example_stats) example_arguments ''X86''
      ''crc'' [icache_variable ''2kB'', dcache_variable ''4kB''] ''a''
      (initial_world :: unit world))) \<noteq> trace (initial_world :: unit world)"
    by code_simp
  moreover have "var_units (dcache_variable ''4kB'') = Some ''B''"
    by (simp add: dcache_variable_def)
  ultimately
  have r2: "\<exists>t k. var_value (dcache_variable ''4kB'') = PyStr t
      \<and> size_string_to_int t = Inr (Some (2 ^ k))"
    using t2 by simp
  from m c r1 r2 show ?thesis
    by blast
qed

text \<open>When every invocation runs to its end, \<open>run_simulation\<close> and
  \<open>run_benchmark\<close> raise nothing after their checks, whatever the return codes are, and
  issue all their commands: three for \<open>susan\<close>, one otherwise.\<close>

lemma run_simulation_ignores_returncode:
  assumes "lower benchmark = ''dummy'' \<or> lower benchmark = ''susan'' \<or> lower benchmark = ''crc''"
    and "upper architecture = ''ARM'' \<or> upper architecture = ''X86''"
    and "check_variables variables = None"
    and "\<forall>n c. \<exists>returncode. outcome (sim n c) = Exited returncode"
  shows "snd (run_simulation sim arguments architecture benchmark variables part w) = None \<and>
         length (trace (fst (run_simulation sim arguments architecture benchmark variables
                               part w))) =
           length (trace w) + (if lower benchmark = ''susan'' then 3 else 1)"
proof -
  from assms(1) obtain binary0 options where
    b: "select_simulation arguments benchmark = Inr (binary0, options)"
    and l: "length options = (if lower benchmark = ''susan'' then 3 else 1)"
    by (auto simp: select_simulation_def Let_def)
  from assms(2) obtain binary where a: "select_architecture architecture binary0 = Inr binary"
    by (auto simp: select_architecture_def)
  let ?command = "\<lambda>option.
     [arg_gem5_path arguments @ ''/build/'' @ upper architecture @ ''/gem5.opt'',
      ''--outdir='' @ arg_gem5_path arguments @ ''/m5out'',
      arg_gem5_path arguments @ ''/configs/example/se.py'',
      ''--cmd='' @ binary,
      ''--options='' @ option,
      ''--cpu-type=TimingSimpleCPU'',
      ''--caches'']
     @ map (\<lambda>v. ''--'' @ var_argument v @ ''='' @ str_pyval (var_value v)) variables
     @ (if part = ''b'' then [''--l1i_size=16kB'', ''--l1d_size=16kB''] else [])"
  from for_each_popen_exited [OF assms(4), of options ?command w]
  obtain w' where "for_each options (\<lambda>x. popen_wait sim (?command x)) w = (w', None)"
    and "trace w' = trace w @ map ?command options"
    by blast
  with a b l assms(3) show ?thesis
    by (simp add: run_simulation_def)
qed

lemma run_benchmark_ignores_returncode:
  assumes "lower benchmark = ''susan'' \<or> lower benchmark = ''crc''"
    and "upper architecture = ''ARM'' \<or> upper architecture = ''X86''"
    and "match_cache_size_pattern (upper icache_size)"
    and "match_cache_size_pattern (upper dcache_size)"
    and "\<forall>n c. \<exists>returncode. outcome (sim n c) = Exited returncode"
  shows "snd (run_benchmark sim benchmark_size architecture benchmark icache_size dcache_size w)
           = None \<and>
         length (trace (fst (run_benchmark sim benchmark_size architecture benchmark
                               icache_size dcache_size w))) =
           length (trace w) + (if lower benchmark = ''susan'' then 3 else 1)"
proof -
  from assms(1) obtain binary0 arguments where
    b: "select_benchmark benchmark_size benchmark = Inr (binary0, arguments)"
    and l: "length arguments = (if lower benchmark = ''susan'' then 3 else 1)"
    by (auto simp: select_benchmark_def Let_def)
  from assms(2) obtain binary where a: "select_architecture architecture binary0 = Inr binary"
    by (auto simp: select_architecture_def)
  let ?command = "\<lambda>argument.
     [''./gem5/build/'' @ upper architecture @ ''/gem5.opt'',
      ''./gem5/configs/example/se.py'',
      ''--cmd='' @ binary,
      ''--options='' @ argument,
      ''--cpu-type=TimingSimpleCPU'',
      ''--caches'',
      ''--l1i_size='' @ icache_size,
      ''--l1d_size='' @ dcache_size]"
  from for_each_popen_exited [OF assms(5), of arguments ?command w]
  obtain w' where "for_each arguments (\<lambda>x. popen_wait sim (?command x)) w = (w', None)"
    and "trace w' = trace w @ map ?command arguments"
    by blast
  with a b l assms(3,4) show ?thesis
    by (simp add: run_benchmark_def)
qed

text \<open>
  Claim C2. A simulator that exits with a non-zero return code is to make the run raise
  and the sweep stop. \<open>aca.py\<close> has the handler for it, which raises
  \<open>Command failed with return code ...\<close> on \<open>CalledProcessError\<close>; but
  \<open>process.wait()\<close> returns the return code and never raises that exception, so the
  handler is never entered, and \<open>run_utils.py\<close> has no handler and never reads the
  return code. When every invocation ends with return code 1, \<open>run_benchmark\<close> and
  \<open>run_simulation\<close> end without an exception, and the sweep of \<open>aca.py\<close> goes on to
  the next point and writes a row for each.
\<close>

theorem nonzero_exit_ignored:
  "snd (run_benchmark (simulator_exits 1 example_stats) ''small'' ''X86'' ''crc''
          ''16kB'' ''16kB'' (initial_world :: unit world)) = None \<and>
   snd (run_simulation (simulator_exits 1 example_stats) example_arguments ''X86'' ''crc''
          [icache_variable ''16kB'', dcache_variable ''16kB''] ''a''
          (initial_world :: unit world)) = None \<and>
   snd (sweep (simulator_exits 1 example_stats) ''small'' [''X86''] [''crc'']
          [''16kB''] [''16kB'', ''32kB''] initial_world) = None \<and>
   length (rows (fst (sweep (simulator_exits 1 example_stats) ''small'' [''X86''] [''crc'']
          [''16kB''] [''16kB'', ''32kB''] initial_world))) = 2"
  by code_simp

section \<open>Properties of the sweeps\<close>

subsection \<open>Loops that raise nothing\<close>

text \<open>When each pass of a loop appends \<open>h x\<close> to a list kept in the state, or adds
  \<open>c x\<close> to a counter, a loop that raises nothing appends, or adds, all of them in
  order.\<close>

lemma for_each_appends:
  assumes "\<And>x w w'. body x w = (w', None) \<Longrightarrow> g w' = g w @ h x"
    and "for_each xs body w = (w', None)"
  shows "g w' = g w @ concat (map h xs)"
  using assms(2)
proof (induction xs arbitrary: w)
  case Nil
  then show ?case by simp
next
  case (Cons x xs)
  then obtain w1 where 1: "body x w = (w1, None)" and 2: "for_each xs body w1 = (w', None)"
    by (auto split: prod.splits option.splits)
  from assms(1) [OF 1] Cons.IH [OF 2] show ?case
    by simp
qed

lemma for_each_adds:
  fixes m :: "'s \<Rightarrow> nat"
  assumes "\<And>x w w'. body x w = (w', None) \<Longrightarrow> m w' = m w + c x"
    and "for_each xs body w = (w', None)"
  shows "m w' = m w + sum_list (map c xs)"
  using assms(2)
proof (induction xs arbitrary: w)
  case Nil
  then show ?case by simp
next
  case (Cons x xs)
  then obtain w1 where 1: "body x w = (w1, None)" and 2: "for_each xs body w1 = (w', None)"
    by (auto split: prod.splits option.splits)
  from assms(1) [OF 1] Cons.IH [OF 2] show ?case
    by simp
qed

subsection \<open>The sweep of \<open>aca.py\<close>\<close>

lemma run_benchmark_effect:
  assumes "run_benchmark sim benchmark_size architecture benchmark icache_size dcache_size w
      = (w', None)"
  shows "rows w' = rows w \<and> length (trace w') = length (trace w) + invocations benchmark"
proof -
  from assms obtain binary0 arguments where
    b: "select_benchmark benchmark_size benchmark = Inr (binary0, arguments)"
    by (cases "select_benchmark benchmark_size benchmark")
      (auto simp: run_benchmark_def)
  then have l: "length arguments = invocations benchmark"
    by (auto simp: select_benchmark_def invocations_def Let_def split: if_splits)
  from assms b obtain binary where
    a: "select_architecture architecture binary0 = Inr binary"
    by (cases "select_architecture architecture binary0")
      (auto simp: run_benchmark_def)
  let ?command = "\<lambda>argument.
     [''./gem5/build/'' @ upper architecture @ ''/gem5.opt'',
      ''./gem5/configs/example/se.py'',
      ''--cmd='' @ binary,
      ''--options='' @ argument,
      ''--cpu-type=TimingSimpleCPU'',
      ''--caches'',
      ''--l1i_size='' @ icache_size,
      ''--l1d_size='' @ dcache_size]"
  from assms a b have "for_each arguments (\<lambda>x. popen_wait sim (?command x)) w = (w', None)"
    by (auto simp: run_benchmark_def split: if_splits)
  from for_each_popen [OF this] l show ?thesis
    by simp
qed

lemma sweep_point_effect:
  assumes "sweep_point sim benchmark_size architecture benchmark icache_size dcache_size w
      = (w', None)"
  shows "map row_columns (rows w') = map row_columns (rows w) @
           [(upper architecture, lower benchmark,
             [size_column icache_size, size_column dcache_size])]"
    and "length (trace w') = length (trace w) + invocations benchmark"
proof -
  from assms obtain w1 where
    r: "run_benchmark sim benchmark_size architecture benchmark icache_size dcache_size w
      = (w1, None)"
    by (auto simp: sweep_point_def split: prod.splits option.splits)
  from assms r obtain isize dsize c where
    s: "aca_size_string_to_int icache_size = Inr isize"
       "aca_size_string_to_int dcache_size = Inr dsize" "cpi (stats w1) = Inr c"
    and w': "w' = w1\<lparr>rows := rows w1 @
             [\<lparr>architecture_field = upper architecture,
               benchmark_field = lower benchmark,
               variable_fields = [str_int_option isize, str_int_option dsize],
               statistic_field = c\<rparr>]\<rparr>"
    by (auto simp: sweep_point_def split: sum.splits)
  from run_benchmark_effect [OF r] s w'
  show "map row_columns (rows w') = map row_columns (rows w) @
           [(upper architecture, lower benchmark,
             [size_column icache_size, size_column dcache_size])]"
    and "length (trace w') = length (trace w) + invocations benchmark"
    by (simp_all add: row_columns_def size_column_def)
qed

lemma sweep_rows:
  assumes "sweep sim benchmark_size architectures benchmarks icache_sizes dcache_sizes w
      = (w', None)"
  shows "map row_columns (rows w') = map row_columns (rows w) @
     [(upper a, lower b, [size_column i, size_column d]).
        a \<leftarrow> architectures, b \<leftarrow> benchmarks, i \<leftarrow> icache_sizes, d \<leftarrow> dcache_sizes]"
proof -
  let ?g = "\<lambda>w :: row world. map row_columns (rows w)"
  let ?hd = "\<lambda>a b i d. [(upper a, lower b, [size_column i, size_column d])]"
  let ?hi = "\<lambda>a b i. concat (map (?hd a b i) dcache_sizes)"
  let ?hb = "\<lambda>a b. concat (map (?hi a b) icache_sizes)"
  let ?ha = "\<lambda>a. concat (map (?hb a) benchmarks)"
  have d: "?g w2 = ?g w1 @ ?hi a b i"
    if "for_each dcache_sizes (sweep_point sim benchmark_size a b i) w1 = (w2, None)"
    for a b i w1 w2
    using that
    by (rule for_each_appends [where g = ?g and h = "?hd a b i", rotated])
      (rule sweep_point_effect(1))
  have i: "?g w2 = ?g w1 @ ?hb a b"
    if "for_each icache_sizes
          (\<lambda>i. for_each dcache_sizes (sweep_point sim benchmark_size a b i)) w1 = (w2, None)"
    for a b w1 w2
    using that
    by (rule for_each_appends [where g = ?g and h = "?hi a b", rotated]) (rule d)
  have b: "?g w2 = ?g w1 @ ?ha a"
    if "for_each benchmarks (\<lambda>b. for_each icache_sizes
          (\<lambda>i. for_each dcache_sizes (sweep_point sim benchmark_size a b i))) w1 = (w2, None)"
    for a w1 w2
    using that
    by (rule for_each_appends [where g = ?g and h = "?hb a", rotated]) (rule i)
  from assms have "?g w' = ?g w @ concat (map ?ha architectures)"
    unfolding sweep_def
    by (rule for_each_appends [where g = ?g and h = ?ha, rotated]) (rule b)
  then show ?thesis
    by simp
qed

lemma sum_list_concat_map:
  fixes f :: "'a \<Rightarrow> nat list"
  shows "sum_list (concat (map f xs)) = sum_list (map (\<lambda>x. sum_list (f x)) xs)"
  by (induction xs) simp_all

lemma sweep_invocations:
  assumes "sweep sim benchmark_size architectures benchmarks icache_sizes dcache_sizes w
      = (w', None)"
  shows "length (trace w') = length (trace w) +
     sum_list [invocations b.
        a \<leftarrow> architectures, b \<leftarrow> benchmarks, i \<leftarrow> icache_sizes, d \<leftarrow> dcache_sizes]"
proof -
  let ?m = "\<lambda>w :: row world. length (trace w)"
  let ?cd = "\<lambda>(b :: string) (d :: string). invocations b"
  let ?ci = "\<lambda>b (i :: string). sum_list (map (?cd b) dcache_sizes)"
  let ?cb = "\<lambda>b. sum_list (map (?ci b) icache_sizes)"
  let ?ca = "\<lambda>a :: string. sum_list (map ?cb benchmarks)"
  have d: "?m w2 = ?m w1 + ?ci b i"
    if "for_each dcache_sizes (sweep_point sim benchmark_size a b i) w1 = (w2, None)"
    for a b i w1 w2
    using that
    by (rule for_each_adds [where m = ?m and c = "?cd b", rotated])
      (rule sweep_point_effect(2))
  have i: "?m w2 = ?m w1 + ?cb b"
    if "for_each icache_sizes
          (\<lambda>i. for_each dcache_sizes (sweep_point sim benchmark_size a b i)) w1 = (w2, None)"
    for a b w1 w2
    using that
    by (rule for_each_adds [where m = ?m and c = "?ci b", rotated]) (rule d)
  have b: "?m w2 = ?m w1 + ?ca a"
    if "for_each benchmarks (\<lambda>b. for_each icache_sizes
          (\<lambda>i. for_each dcache_sizes (sweep_point sim benchmark_size a b i))) w1 = (w2, None)"
    for a w1 w2
    using that
    by (rule for_each_adds [where m = ?m and c = "?cb", rotated]) (rule i)
  from assms have "?m w' = ?m w + sum_list (map ?ca architectures)"
    unfolding sweep_def
    by (rule for_each_adds [where m = ?m and c = ?ca, rotated]) (rule b)
  then show ?thesis
    by (simp add: sum_list_concat_map)
qed

subsection \<open>The sweep of \<open>run_utils.py\<close>\<close>

lemma run_simulation_effect:
  assumes "run_simulation sim arguments architecture benchmark variables part w = (w', None)"
  shows "rows w' = rows w \<and> length (trace w') = length (trace w) + invocations benchmark"
proof -
  from assms obtain binary0 options where
    b: "select_simulation arguments benchmark = Inr (binary0, options)"
    by (cases "select_simulation arguments benchmark")
      (auto simp: run_simulation_def)
  then have l: "length options = invocations benchmark"
    by (auto simp: select_simulation_def invocations_def Let_def split: if_splits)
  from assms b obtain binary where
    a: "select_architecture architecture binary0 = Inr binary"
    by (cases "select_architecture architecture binary0")
      (auto simp: run_simulation_def)
  let ?command = "\<lambda>option.
     [arg_gem5_path arguments @ ''/build/'' @ upper architecture @ ''/gem5.opt'',
      ''--outdir='' @ arg_gem5_path arguments @ ''/m5out'',
      arg_gem5_path arguments @ ''/configs/example/se.py'',
      ''--cmd='' @ binary,
      ''--options='' @ option,
      ''--cpu-type=TimingSimpleCPU'',
      ''--caches'']
     @ map (\<lambda>v. ''--'' @ var_argument v @ ''='' @ str_pyval (var_value v)) variables
     @ (if part = ''b'' then [''--l1i_size=16kB'', ''--l1d_size=16kB''] else [])"
  from assms a b have "for_each options (\<lambda>x. popen_wait sim (?command x)) w = (w', None)"
    by (auto simp: run_simulation_def split: option.splits)
  from for_each_popen [OF this] l show ?thesis
    by simp
qed

lemma simulations_point_effect:
  assumes "simulations_point sim float_of_str arguments p architecture benchmark v0 v1 w
      = (w', None)"
  shows "map (\<lambda>r. (fst r, row_columns (snd r))) (rows w') =
         map (\<lambda>r. (fst r, row_columns (snd r))) (rows w) @
           [(part_letter p, architecture, benchmark,
             [variable_column (fst (part_variables p)) v0,
              variable_column (snd (part_variables p)) v1])]"
    and "length (trace w') = length (trace w) + invocations benchmark"
proof -
  let ?variables = "[variable_of v0 (fst (part_variables p)),
                     variable_of v1 (snd (part_variables p))]"
  from assms obtain w1 where
    r: "run_simulation sim arguments architecture benchmark ?variables (part_letter p) w
      = (w1, None)"
    by (auto simp: simulations_point_def Let_def split: prod.splits option.splits)
  from assms r obtain f0 f1 x where
    s: "variable_field (variable_of v0 (fst (part_variables p))) = Inr f0"
       "variable_field (variable_of v1 (snd (part_variables p))) = Inr f1"
    and w': "w' = w1\<lparr>rows := rows w1 @
             [(part_letter p,
               \<lparr>architecture_field = architecture,
                benchmark_field = benchmark,
                variable_fields = [f0, f1],
                statistic_field = x\<rparr>)]\<rparr>"
    by (auto simp: simulations_point_def Let_def split: sum.splits)
  from run_simulation_effect [OF r] s w'
  show "map (\<lambda>r. (fst r, row_columns (snd r))) (rows w') =
         map (\<lambda>r. (fst r, row_columns (snd r))) (rows w) @
           [(part_letter p, architecture, benchmark,
             [variable_column (fst (part_variables p)) v0,
              variable_column (snd (part_variables p)) v1])]"
    and "length (trace w') = length (trace w) + invocations benchmark"
    by (simp_all add: row_columns_def variable_column_def)
qed

lemma simulations_loop_rows:
  assumes "simulations_loop sim float_of_str arguments parts w = (w', None)"
  shows "map (\<lambda>r. (fst r, row_columns (snd r))) (rows w') =
     map (\<lambda>r. (fst r, row_columns (snd r))) (rows w) @
     [(part_letter p, a, b,
       [variable_column (fst (part_variables p)) v0,
        variable_column (snd (part_variables p)) v1]).
        p \<leftarrow> parts, a \<leftarrow> swept_architectures arguments p, b \<leftarrow> arg_benchmarks arguments,
        v0 \<leftarrow> sweep_values (fst (part_variables p)),
        v1 \<leftarrow> sweep_values (snd (part_variables p))]"
proof -
  let ?g = "\<lambda>w :: (string \<times> row) world. map (\<lambda>r. (fst r, row_columns (snd r))) (rows w)"
  let ?point = "simulations_point sim float_of_str arguments"
  let ?h1 = "\<lambda>p a b v0 v1. [(part_letter p, a, b,
       [variable_column (fst (part_variables p)) v0,
        variable_column (snd (part_variables p)) v1])]"
  let ?h0 = "\<lambda>p a b v0. concat (map (?h1 p a b v0) (sweep_values (snd (part_variables p))))"
  let ?hb = "\<lambda>p a b. concat (map (?h0 p a b) (sweep_values (fst (part_variables p))))"
  let ?ha = "\<lambda>p a. concat (map (?hb p a) (arg_benchmarks arguments))"
  let ?hp = "\<lambda>p. concat (map (?ha p) (swept_architectures arguments p))"
  have l1: "?g w2 = ?g w1 @ ?h0 p a b v0"
    if "for_each (sweep_values (snd (part_variables p))) (?point p a b v0) w1 = (w2, None)"
    for p a b v0 w1 w2
    using that
    by (rule for_each_appends [where g = ?g and h = "?h1 p a b v0", rotated])
      (rule simulations_point_effect(1))
  have l0: "?g w2 = ?g w1 @ ?hb p a b"
    if "for_each (sweep_values (fst (part_variables p)))
          (\<lambda>v0. for_each (sweep_values (snd (part_variables p))) (?point p a b v0)) w1
        = (w2, None)"
    for p a b w1 w2
    using that
    by (rule for_each_appends [where g = ?g and h = "?h0 p a b", rotated]) (rule l1)
  have lb: "?g w2 = ?g w1 @ ?ha p a"
    if "for_each (arg_benchmarks arguments) (\<lambda>b. for_each (sweep_values (fst (part_variables p)))
          (\<lambda>v0. for_each (sweep_values (snd (part_variables p))) (?point p a b v0))) w1
        = (w2, None)"
    for p a w1 w2
    using that
    by (rule for_each_appends [where g = ?g and h = "?hb p a", rotated]) (rule l0)
  have la: "?g w2 = ?g w1 @ concat (map (?ha p) architectures)"
    if "for_each architectures (\<lambda>a. for_each (arg_benchmarks arguments)
          (\<lambda>b. for_each (sweep_values (fst (part_variables p)))
          (\<lambda>v0. for_each (sweep_values (snd (part_variables p))) (?point p a b v0)))) w1
        = (w2, None)"
    for p architectures w1 w2
    using that
    by (rule for_each_appends [where g = ?g and h = "?ha p", rotated]) (rule lb)
  have lp: "?g w2 = ?g w1 @ ?hp p"
    if "(case part_architectures arguments p of
           Inl e \<Rightarrow> (w1, Some e)
         | Inr architectures \<Rightarrow>
             for_each architectures (\<lambda>a. for_each (arg_benchmarks arguments)
               (\<lambda>b. for_each (sweep_values (fst (part_variables p)))
               (\<lambda>v0. for_each (sweep_values (snd (part_variables p))) (?point p a b v0)))) w1)
        = (w2, None)"
    for p w1 w2
    using that la [of _ p w1 w2]
    by (cases "part_architectures arguments p") (simp_all add: swept_architectures_def)
  from assms have "?g w' = ?g w @ concat (map ?hp parts)"
    unfolding simulations_loop_def
    by (rule for_each_appends [where g = ?g and h = ?hp, rotated]) (rule lp)
  then show ?thesis
    by simp
qed

lemma simulations_loop_invocations:
  assumes "simulations_loop sim float_of_str arguments parts w = (w', None)"
  shows "length (trace w') = length (trace w) +
     sum_list [invocations b.
        p \<leftarrow> parts, a \<leftarrow> swept_architectures arguments p, b \<leftarrow> arg_benchmarks arguments,
        v0 \<leftarrow> sweep_values (fst (part_variables p)),
        v1 \<leftarrow> sweep_values (snd (part_variables p))]"
proof -
  let ?m = "\<lambda>w :: (string \<times> row) world. length (trace w)"
  let ?point = "simulations_point sim float_of_str arguments"
  let ?c1 = "\<lambda>(b :: string) (v1 :: pyval). invocations b"
  let ?c0 = "\<lambda>p b (v0 :: pyval). sum_list (map (?c1 b) (sweep_values (snd (part_variables p))))"
  let ?cb = "\<lambda>p b. sum_list (map (?c0 p b) (sweep_values (fst (part_variables p))))"
  let ?ca = "\<lambda>p (a :: string). sum_list (map (?cb p) (arg_benchmarks arguments))"
  let ?cp = "\<lambda>p. sum_list (map (?ca p) (swept_architectures arguments p))"
  have l1: "?m w2 = ?m w1 + ?c0 p b v0"
    if "for_each (sweep_values (snd (part_variables p))) (?point p a b v0) w1 = (w2, None)"
    for p a b v0 w1 w2
    using that
    by (rule for_each_adds [where m = ?m and c = "?c1 b", rotated])
      (rule simulations_point_effect(2))
  have l0: "?m w2 = ?m w1 + ?cb p b"
    if "for_each (sweep_values (fst (part_variables p)))
          (\<lambda>v0. for_each (sweep_values (snd (part_variables p))) (?point p a b v0)) w1
        = (w2, None)"
    for p a b w1 w2
    using that
    by (rule for_each_adds [where m = ?m and c = "?c0 p b", rotated]) (rule l1)
  have lb: "?m w2 = ?m w1 + ?ca p a"
    if "for_each (arg_benchmarks arguments) (\<lambda>b. for_each (sweep_values (fst (part_variables p)))
          (\<lambda>v0. for_each (sweep_values (snd (part_variables p))) (?point p a b v0))) w1
        = (w2, None)"
    for p a w1 w2
    using that
    by (rule for_each_adds [where m = ?m and c = "?cb p", rotated]) (rule l0)
  have la: "?m w2 = ?m w1 + sum_list (map (?ca p) architectures)"
    if "for_each architectures (\<lambda>a. for_each (arg_benchmarks arguments)
          (\<lambda>b. for_each (sweep_values (fst (part_variables p)))
          (\<lambda>v0. for_each (sweep_values (snd (part_variables p))) (?point p a b v0)))) w1
        = (w2, None)"
    for p architectures w1 w2
    using that
    by (rule for_each_adds [where m = ?m and c = "?ca p", rotated]) (rule lb)
  have lp: "?m w2 = ?m w1 + ?cp p"
    if "(case part_architectures arguments p of
           Inl e \<Rightarrow> (w1, Some e)
         | Inr architectures \<Rightarrow>
             for_each architectures (\<lambda>a. for_each (arg_benchmarks arguments)
               (\<lambda>b. for_each (sweep_values (fst (part_variables p)))
               (\<lambda>v0. for_each (sweep_values (snd (part_variables p))) (?point p a b v0)))) w1)
        = (w2, None)"
    for p w1 w2
    using that la [of _ p w1 w2]
    by (cases "part_architectures arguments p") (simp_all add: swept_architectures_def)
  from assms have "?m w' = ?m w + sum_list (map ?cp parts)"
    unfolding simulations_loop_def
    by (rule for_each_adds [where m = ?m and c = ?cp, rotated]) (rule lp)
  then show ?thesis
    by (simp add: sum_list_concat_map)
qed

subsection \<open>The claim on the sweeps\<close>

text \<open>Every part of \<open>run_utils.py\<close>, part \<open>a\<close> included, is swept over the first
  architecture alone.\<close>

lemma swept_architectures_first:
  "swept_architectures arguments p = take 1 (arg_architectures arguments)"
  by (simp add: swept_architectures_def part_architectures_def part_differs_from_str_def
      split: list.splits)

text \<open>
  Claim C5, as stated, fails. For the benchmark \<open>susan\<close> one point of the sweep of
  \<open>aca.py\<close> invokes the simulator three times, not once, and writes one row. In
  \<open>run_utils.py\<close> part \<open>b\<close> is swept over the first architecture only: with the
  architectures \<open>X86\<close> and \<open>ARM\<close> and two values of the second variable, it writes two
  rows, both for \<open>X86\<close>, where the full product has four points.
\<close>

theorem sweep_counterexample:
  "snd (sweep (simulator_exits 0 example_stats) ''small'' [''X86''] [''susan'']
          [''16kB''] [''16kB''] initial_world) = None \<and>
   length (rows (fst (sweep (simulator_exits 0 example_stats) ''small'' [''X86''] [''susan'']
          [''16kB''] [''16kB''] initial_world))) = 1 \<and>
   length (trace (fst (sweep (simulator_exits 0 example_stats) ''small'' [''X86''] [''susan'']
          [''16kB''] [''16kB''] initial_world))) = 3 \<and>
   arg_architectures example_arguments = [''X86'', ''ARM''] \<and>
   snd (simulations_loop (simulator_exits 0 example_stats) example_float example_arguments
          [example_part_b] initial_world) = None \<and>
   map (\<lambda>r. (fst r, row_columns (snd r)))
     (rows (fst (simulations_loop (simulator_exits 0 example_stats) example_float
          example_arguments [example_part_b] initial_world))) =
     [(''b'', ''X86'', ''crc'', [''2'', ''16'']), (''b'', ''X86'', ''crc'', [''2'', ''128''])]"
  by code_simp

text \<open>
  Claim C5, amended. When the sweep of \<open>aca.py\<close> raises nothing, it has written exactly
  one row for each point of the product of the architectures, the benchmarks, the
  instruction cache sizes and the data cache sizes, in nested order with the architecture
  outermost and the data cache size innermost, and it has invoked the simulator, for each
  point, three times for \<open>susan\<close> and once otherwise. When the loops of
  \<open>run_simulations\<close> in \<open>run_utils.py\<close> raise nothing, they have done the same for
  each part in turn, over the architectures that part is swept over, the benchmarks and
  the values of the two variables of the part.
\<close>

theorem sweep_rows_and_invocations:
  "(sweep sim benchmark_size architectures benchmarks icache_sizes dcache_sizes w = (w', None)
      \<longrightarrow>
      map row_columns (rows w') = map row_columns (rows w) @
        [(upper a, lower b, [size_column i, size_column d]).
           a \<leftarrow> architectures, b \<leftarrow> benchmarks, i \<leftarrow> icache_sizes, d \<leftarrow> dcache_sizes] \<and>
      length (trace w') = length (trace w) +
        sum_list [invocations b.
           a \<leftarrow> architectures, b \<leftarrow> benchmarks, i \<leftarrow> icache_sizes, d \<leftarrow> dcache_sizes]) \<and>
   (simulations_loop sim' float_of_str arguments parts u = (u', None) \<longrightarrow>
      map (\<lambda>r. (fst r, row_columns (snd r))) (rows u') =
        map (\<lambda>r. (fst r, row_columns (snd r))) (rows u) @
        [(part_letter p, a, b,
          [variable_column (fst (part_variables p)) v0,
           variable_column (snd (part_variables p)) v1]).
           p \<leftarrow> parts, a \<leftarrow> swept_architectures arguments p, b \<leftarrow> arg_benchmarks arguments,
           v0 \<leftarrow> sweep_values (fst (part_variables p)),
           v1 \<leftarrow> sweep_values (snd (part_variables p))] \<and>
      length (trace u') = length (trace u) +
        sum_list [invocations b.
           p \<leftarrow> parts, a \<leftarrow> swept_architectures arguments p, b \<leftarrow> arg_benchmarks arguments,
           v0 \<leftarrow> sweep_values (fst (part_variables p)),
           v1 \<leftarrow> sweep_values (snd (part_variables p))])"
  by (intro conjI impI)
    (erule sweep_rows sweep_invocations simulations_loop_rows simulations_loop_invocations)+

theorem sweep_rows_and_invocations_witness:
  "map row_columns
     (rows (fst (sweep (simulator_exits 0 example_stats) ''small'' [''X86'', ''arm''] [''Susan'']
          [''16kB''] [''16kB'', ''32kB''] initial_world))) =
     [(''X86'', ''susan'', [''16000'', ''16000'']), (''X86'', ''susan'', [''16000'', ''32000'']),
      (''ARM'', ''susan'', [''16000'', ''16000'']), (''ARM'', ''susan'', [''16000'', ''32000''])] \<and>
   length (trace (fst (sweep (simulator_exits 0 example_stats) ''small'' [''X86'', ''arm'']
          [''Susan''] [''16kB''] [''16kB'', ''32kB''] initial_world))) = 12 \<and>
   map (\<lambda>r. (fst r, row_columns (snd r)))
     (rows (fst (simulations_loop (simulator_exits 0 example_stats) example_float
          (example_arguments\<lparr>arg_architectures := [''X86'']\<rparr>)
          [example_part_a, example_part_b] initial_world))) =
     [(''a'', ''X86'', ''crc'', [''2048'', ''2048'']), (''a'', ''X86'', ''crc'', [''2048'', ''4096'']),
      (''b'', ''X86'', ''crc'', [''2'', ''16'']), (''b'', ''X86'', ''crc'', [''2'', ''128''])] \<and>
   length (trace (fst (simulations_loop (simulator_exits 0 example_stats) example_float
          (example_arguments\<lparr>arg_architectures := [''X86'']\<rparr>)
          [example_part_a, example_part_b] initial_world))) = 4"
proof -
  let ?s = "sweep (simulator_exits 0 example_stats) ''small'' [''X86'', ''arm''] [''Susan'']
      [''16kB''] [''16kB'', ''32kB''] initial_world"
  let ?arguments = "example_arguments\<lparr>arg_architectures := [''X86'']\<rparr>"
  let ?l = "simulations_loop (simulator_exits 0 example_stats) example_float ?arguments
      [example_part_a, example_part_b] initial_world"
  have "snd ?s = None"
    by code_simp
  then have s: "?s = (fst ?s, None)"
    by (metis prod.collapse)
  have "snd ?l = None"
    by code_simp
  then have l: "?l = (fst ?l, None)"
    by (metis prod.collapse)
  have e1: "[(upper a, lower b, [size_column i, size_column d]).
      a \<leftarrow> [''X86'', ''arm''], b \<leftarrow> [''Susan''], i \<leftarrow> [''16kB''], d \<leftarrow> [''16kB'', ''32kB'']] =
     [(''X86'', ''susan'', [''16000'', ''16000'']), (''X86'', ''susan'', [''16000'', ''32000'']),
      (''ARM'', ''susan'', [''16000'', ''16000'']), (''ARM'', ''susan'', [''16000'', ''32000''])]"
    by code_simp
  have n1: "sum_list [invocations b.
      a \<leftarrow> [''X86'', ''arm''], b \<leftarrow> [''Susan''], i \<leftarrow> [''16kB''],
      d \<leftarrow> [''16kB'', ''32kB'' :: string]] = 12"
    by code_simp
  have e2: "[(part_letter p, a, b,
          [variable_column (fst (part_variables p)) v0,
           variable_column (snd (part_variables p)) v1]).
           p \<leftarrow> [example_part_a, example_part_b], a \<leftarrow> swept_architectures ?arguments p,
           b \<leftarrow> arg_benchmarks ?arguments,
           v0 \<leftarrow> sweep_values (fst (part_variables p)),
           v1 \<leftarrow> sweep_values (snd (part_variables p))] =
     [(''a'', ''X86'', ''crc'', [''2048'', ''2048'']), (''a'', ''X86'', ''crc'', [''2048'', ''4096'']),
      (''b'', ''X86'', ''crc'', [''2'', ''16'']), (''b'', ''X86'', ''crc'', [''2'', ''128''])]"
    by code_simp
  have n2: "sum_list [invocations b.
           p \<leftarrow> [example_part_a, example_part_b], a \<leftarrow> swept_architectures ?arguments p,
           b \<leftarrow> arg_benchmarks ?arguments,
           v0 \<leftarrow> sweep_values (fst (part_variables p)),
           v1 \<leftarrow> sweep_values (snd (part_variables p))] = 4"
    by code_simp
  note t = sweep_rows_and_invocations
    [where sim = "simulator_exits 0 example_stats" and benchmark_size = "''small''"
      and architectures = "[''X86'', ''arm'']" and benchmarks = "[''Susan'']"
      and icache_sizes = "[''16kB'']" and dcache_sizes = "[''16kB'', ''32kB'']"
      and w = initial_world and w' = "fst ?s"
      and sim' = "simulator_exits 0 example_stats" and float_of_str = example_float
      and arguments = ?arguments and parts = "[example_part_a, example_part_b]"
      and u = initial_world and u' = "fst ?l"]
  from t s have
    "map row_columns (rows (fst ?s)) = map row_columns (rows (initial_world :: row world)) @
        [(upper a, lower b, [size_column i, size_column d]).
           a \<leftarrow> [''X86'', ''arm''], b \<leftarrow> [''Susan''], i \<leftarrow> [''16kB''], d \<leftarrow> [''16kB'', ''32kB'']]"
    and "length (trace (fst ?s)) = length (trace (initial_world :: row world)) +
        sum_list [invocations b.
           a \<leftarrow> [''X86'', ''arm''], b \<leftarrow> [''Susan''], i \<leftarrow> [''16kB''],
           d \<leftarrow> [''16kB'', ''32kB'' :: string]]"
    by blast+
  then have r1: "map row_columns (rows (fst ?s)) =
     [(''X86'', ''susan'', [''16000'', ''16000'']), (''X86'', ''susan'', [''16000'', ''32000'']),
      (''ARM'', ''susan'', [''16000'', ''16000'']), (''ARM'', ''susan'', [''16000'', ''32000''])]"
    and r2: "length (trace (fst ?s)) = 12"
    unfolding e1 n1 by (simp_all add: initial_world_def)
  from t l have
    "map (\<lambda>r. (fst r, row_columns (snd r))) (rows (fst ?l)) =
        map (\<lambda>r. (fst r, row_columns (snd r))) (rows (initial_world :: (string \<times> row) world)) @
        [(part_letter p, a, b,
          [variable_column (fst (part_variables p)) v0,
           variable_column (snd (part_variables p)) v1]).
           p \<leftarrow> [example_part_a, example_part_b], a \<leftarrow> swept_architectures ?arguments p,
           b \<leftarrow> arg_benchmarks ?arguments,
           v0 \<leftarrow> sweep_values (fst (part_variables p)),
           v1 \<leftarrow> sweep_values (snd (part_variables p))]"
    and "length (trace (fst ?l)) = length (trace (initial_world :: (string \<times> row) world)) +
        sum_list [invocations b.
           p \<leftarrow> [example_part_a, example_part_b], a \<leftarrow> swept_architectures ?arguments p,
           b \<leftarrow> arg_benchmarks ?arguments,
           v0 \<leftarrow> sweep_values (fst (part_variables p)),
           v1 \<leftarrow> sweep_values (snd (part_variables p))]"
    by blast+
  then have r3: "map (\<lambda>r. (fst r, row_columns (snd r))) (rows (fst ?l)) =
     [(''a'', ''X86'', ''crc'', [''2048'', ''2048'']), (''a'', ''X86'', ''crc'', [''2048'', ''4096'']),
      (''b'', ''X86'', ''crc'', [''2'', ''16'']), (''b'', ''X86'', ''crc'', [''2'', ''128''])]"
    and r4: "length (trace (fst ?l)) = 4"
    unfolding e2 n2 by (simp_all add: initial_world_def)
  from r1 r2 r3 r4 show ?thesis
    by blast
qed

subsection \<open>An exception of a parser ends the sweep\<close>

text \<open>Nothing in the loops catches an exception: a pass that raises ends its loop in
  the state of the raise, and so every loop around it.\<close>

lemma for_each_raises:
  "body x w = (w', Some e) \<Longrightarrow> for_each (x # xs) body w = (w', Some e)"
  by simp

text \<open>When the run of a point leaves an empty statistics file, the point ends with an
  exception and without a row, in both scripts.\<close>

lemma sweep_point_empty_stats:
  assumes "run_benchmark sim benchmark_size architecture benchmark icache_size dcache_size w
      = (w1, None)"
    and "stats w1 = Some []"
  shows "\<exists>e. sweep_point sim benchmark_size architecture benchmark icache_size dcache_size w
      = (w1, Some e)"
  using assms
  by (auto simp: sweep_point_def cpi_def readline_def split: sum.splits)

lemma simulations_point_empty_stats:
  assumes "run_simulation sim arguments architecture benchmark
      [variable_of v0 (fst (part_variables p)), variable_of v1 (snd (part_variables p))]
      (part_letter p) w = (w1, None)"
    and "stats w1 = Some []"
  shows "\<exists>e. simulations_point sim float_of_str arguments p architecture benchmark v0 v1 w
      = (w1, Some e)"
  using assms
  by (auto simp: simulations_point_def get_statistic_def readline_def split: sum.splits)

end
